theory Spec2Isabelle
  imports Main "HOL-Library.Char_ord" "HOL-Library.List_Lexorder" "HOL-Library.Multiset"
begin

section \<open>Strings and paths\<close>

text \<open>
  Go strings are byte sequences; they are modelled as \<open>string\<close> (a list of 8-bit
  characters). \<open>sort.Strings\<close> orders byte-wise, which is the lexicographic order on
  character lists.
\<close>

text \<open>\<open>strings.HasPrefix(s, "/")\<close> and \<open>strings.HasSuffix(s, "/")\<close>.\<close>

definition HasPrefix_slash :: "string \<Rightarrow> bool" where
  "HasPrefix_slash s = (case s of [] \<Rightarrow> False | c # _ \<Rightarrow> c = CHR ''/'')"

definition HasSuffix_slash :: "string \<Rightarrow> bool" where
  "HasSuffix_slash s = (s \<noteq> [] \<and> last s = CHR ''/'')"

text \<open>\<open>strings.Split(s, "/")\<close>: all pieces between separators; the empty string gives one
  empty piece.\<close>

fun Split_slash :: "string \<Rightarrow> string list" where
  "Split_slash [] = [[]]"
| "Split_slash (c # cs) =
     (if c = CHR ''/'' then [] # Split_slash cs
      else (case Split_slash cs of [] \<Rightarrow> [[c]] | s # ss \<Rightarrow> (c # s) # ss))"

text \<open>\<open>strings.Join(elems, sep)\<close>.\<close>

fun Join_sep :: "string \<Rightarrow> string list \<Rightarrow> string" where
  "Join_sep sep [] = []"
| "Join_sep sep [x] = x"
| "Join_sep sep (x # y # ys) = x @ sep @ Join_sep sep (y # ys)"

text \<open>
  \<open>filepath.Clean\<close> of the Go standard library, on a system whose separator is the slash
  (the code itself splits the prefix on "/"). Its documented rules, applied element by
  element: empty elements and \<open>.\<close> elements are dropped; a \<open>..\<close> element removes the real
  element before it when there is one, is dropped at the start of a rooted path, and is
  kept at the start of a relative path; an empty result is \<open>.\<close>. The elements kept
  so far are held with the most recent one first.
\<close>

definition clean_step :: "bool \<Rightarrow> string list \<Rightarrow> string \<Rightarrow> string list" where
  "clean_step rooted stack seg =
     (if seg = [] \<or> seg = ''.'' then stack
      else if seg = ''..'' then
        (case stack of
           [] \<Rightarrow> if rooted then [] else [''..'']
         | e # below \<Rightarrow>
             if e \<noteq> ''..'' then below
             else if rooted then stack else ''..'' # stack)
      else seg # stack)"

definition Clean :: "string \<Rightarrow> string" where
  "Clean path =
     (if path = [] then ''.''
      else
        let rooted = HasPrefix_slash path;
            stack = foldl (clean_step rooted) [] (Split_slash path);
            out = (if rooted then ''/'' else []) @ Join_sep ''/'' (rev stack)
        in if out = [] then ''.'' else out)"

text \<open>\<open>filepath.Join\<close>: the elements from the first non-empty one on are joined with
  slashes and cleaned; when every element is empty the result is empty.\<close>

fun filepath_Join :: "string list \<Rightarrow> string" where
  "filepath_Join [] = []"
| "filepath_Join (e # es) =
     (if e = [] then filepath_Join es else Clean (Join_sep ''/'' (e # es)))"

section \<open>Data model\<close>

text \<open>An error made here with \<open>fmt.Errorf\<close> is \<open>Error\<close> with its message; an error
  value handed back by a collaborator (storage, database, codec, signer) and returned as
  it is, is \<open>External\<close> with its text; a Go panic is \<open>Panic\<close>. Collaborators report
  an error as its text.\<close>

datatype error = Error string | External string | Panic string

text \<open>The struct \<open>PublishedRepo\<close>; the two unexported source handles are nil or set.\<close>

record Snapshot =
  snapshot_UUID :: string
  snapshot_SourceKind :: string
  snapshot_SourceIDs :: "string list"
  snapshot_RefList :: "string list"

record LocalRepo =
  local_UUID :: string
  DefaultDistribution :: string
  DefaultComponent :: string
  local_RefList :: "string list"

record RemoteRepo =
  remote_Distribution :: string
  remote_Components :: "string list"

record PublishedRepo =
  UUID :: string
  Prefix :: string
  Distribution :: string
  Component :: string
  Architectures :: "string list"
  SourceKind :: string
  SourceUUID :: string
  snapshot :: "Snapshot option"
  localRepo :: "LocalRepo option"

text \<open>The \<open>source interface{}\<close> argument of \<open>NewPublishedRepo\<close>: a snapshot, a local
  repository, or a value of any other dynamic type.\<close>

datatype source = SrcSnapshot Snapshot | SrcLocalRepo LocalRepo | SrcOther

text \<open>The collections reached through the collection factory: each \<open>ByUUID\<close> finds an
  entity or returns an error (\<open>None\<close>).\<close>

record CollectionFactory =
  RemoteRepo_ByUUID :: "string \<Rightarrow> RemoteRepo option"
  LocalRepo_ByUUID :: "string \<Rightarrow> LocalRepo option"
  Snapshot_ByUUID :: "string \<Rightarrow> Snapshot option"

section \<open>NewPublishedRepo\<close>

text \<open>Lines 67 to 74: clean, strip one leading and one trailing slash, clean again.\<close>

definition normalizePrefix :: "string \<Rightarrow> string" where
  "normalizePrefix prefix =
     (let p1 = Clean prefix;
          p2 = (if HasPrefix_slash p1 then tl p1 else p1);
          p3 = (if HasSuffix_slash p2 then butlast p2 else p2)
      in Clean p3)"

text \<open>Lines 76 to 80: the loop over the parts of the prefix.\<close>

definition invalidPart :: "string \<Rightarrow> bool" where
  "invalidPart part = (part = ''..'' \<or> part = ''dists'' \<or> part = ''pool'')"

definition prefixRejected :: "string \<Rightarrow> bool" where
  "prefixRejected prefix = list_ex invalidPart (Split_slash prefix)"

text \<open>The nodes of the frontier of the walk.\<close>

datatype node = NSnapshot Snapshot | NLocalRepo LocalRepo | NRemoteRepo RemoteRepo

text \<open>Lines 99 to 119: the sources of a snapshot that are found, in order.\<close>

definition expand :: "CollectionFactory \<Rightarrow> Snapshot \<Rightarrow> node list" where
  "expand cf s =
     concat (map (\<lambda>uuid.
       if snapshot_SourceKind s = ''repo'' then
         (case RemoteRepo_ByUUID cf uuid of None \<Rightarrow> [] | Some r \<Rightarrow> [NRemoteRepo r])
       else if snapshot_SourceKind s = ''local'' then
         (case LocalRepo_ByUUID cf uuid of None \<Rightarrow> [] | Some l \<Rightarrow> [NLocalRepo l])
       else if snapshot_SourceKind s = ''snapshot'' then
         (case Snapshot_ByUUID cf uuid of None \<Rightarrow> [] | Some t \<Rightarrow> [NSnapshot t])
       else []) (snapshot_SourceIDs s))"

text \<open>Lines 95 to 135: the walk from the source up to the roots. It returns the root
  components and the root distributions; on a cyclic snapshot graph it does not return,
  which is the value \<open>None\<close>.\<close>

partial_function (option) walk ::
  "CollectionFactory \<Rightarrow> node list \<Rightarrow> string list \<Rightarrow> string list \<Rightarrow> (string list \<times> string list) option"
where
  "walk cf current rootComponents rootDistributions =
     (case current of
        [] \<Rightarrow> Some (rootComponents, rootDistributions)
      | head # rest \<Rightarrow>
          (case head of
             NSnapshot s \<Rightarrow> walk cf (rest @ expand cf s) rootComponents rootDistributions
           | NLocalRepo l \<Rightarrow>
               walk cf rest
                 (if DefaultComponent l \<noteq> [] then rootComponents @ [DefaultComponent l]
                  else rootComponents)
                 (if DefaultDistribution l \<noteq> [] then rootDistributions @ [DefaultDistribution l]
                  else rootDistributions)
           | NRemoteRepo r \<Rightarrow>
               walk cf rest
                 (rootComponents @ remote_Components r)
                 (if remote_Distribution r \<noteq> [] then rootDistributions @ [remote_Distribution r]
                  else rootDistributions)))"

text \<open>Lines 137 to 144 and 146 to 153: the guesses from the sorted collections.\<close>

definition guessDistribution :: "string list \<Rightarrow> error + string" where
  "guessDistribution rootDistributions =
     (let sorted_ds = sort rootDistributions
      in if length sorted_ds > 0 \<and> hd sorted_ds = last sorted_ds then Inr (hd sorted_ds)
         else Inl (Error ''unable to guess distribution name, please specify explicitly''))"

definition guessComponent :: "string list \<Rightarrow> string" where
  "guessComponent rootComponents =
     (let sorted_cs = sort rootComponents
      in if length sorted_cs > 0 \<and> hd sorted_cs = last sorted_cs then hd sorted_cs
         else ''main'')"

text \<open>Lines 84 to 154: the guessing block, entered when either argument is empty.\<close>

definition guess ::
  "CollectionFactory \<Rightarrow> node \<Rightarrow> string \<Rightarrow> string \<Rightarrow> (error + string \<times> string) option" where
  "guess cf src distribution component =
     (if component = [] \<or> distribution = [] then
        (case walk cf [src] [] [] of
           None \<Rightarrow> None
         | Some (rootComponents, rootDistributions) \<Rightarrow>
             (case (if distribution = [] then guessDistribution rootDistributions
                    else Inr distribution) of
                Inl e \<Rightarrow> Some (Inl e)
              | Inr d \<Rightarrow>
                  Some (Inr (d, if component = [] then guessComponent rootComponents
                                else component))))
      else Some (Inr (distribution, component)))"

text \<open>Lines 66 to 158: what follows once the source has been figured out; \<open>result\<close> is
  the entity built so far and \<open>start\<close> the source as the first node of the walk. The
  result is \<open>None\<close> when the walk does not return.\<close>

definition finishPublishedRepo ::
  "PublishedRepo \<Rightarrow> node \<Rightarrow> string \<Rightarrow> string \<Rightarrow> string \<Rightarrow> CollectionFactory
     \<Rightarrow> (error + PublishedRepo) option" where
  "finishPublishedRepo result start prefix distribution component cf =
     (let p = normalizePrefix prefix
      in if prefixRejected p then Some (Inl (Error (''invalid prefix '' @ p)))
         else
           (case guess cf start distribution component of
              None \<Rightarrow> None
            | Some (Inl e) \<Rightarrow> Some (Inl e)
            | Some (Inr (d, c)) \<Rightarrow>
                Some (Inr (result\<lparr> Prefix := p, Distribution := d, Component := c \<rparr>))))"

text \<open>\<open>NewPublishedRepo\<close>. The fresh UUID of \<open>uuid.New()\<close> is the first argument; the
  fields not yet assigned hold Go's zero values.\<close>

definition NewPublishedRepo ::
  "string \<Rightarrow> string \<Rightarrow> string \<Rightarrow> string \<Rightarrow> string list \<Rightarrow> source \<Rightarrow> CollectionFactory
     \<Rightarrow> (error + PublishedRepo) option" where
  "NewPublishedRepo newUUID prefix distribution component architectures src cf =
     (let result = \<lparr> UUID = newUUID, Prefix = [], Distribution = [], Component = [],
                      Architectures = architectures, SourceKind = [], SourceUUID = [],
                      snapshot = None, localRepo = None \<rparr>
      in case src of
           SrcSnapshot s \<Rightarrow>
             finishPublishedRepo
               (result\<lparr> snapshot := Some s, SourceKind := ''snapshot'',
                         SourceUUID := snapshot_UUID s \<rparr>)
               (NSnapshot s) prefix distribution component cf
         | SrcLocalRepo l \<Rightarrow>
             finishPublishedRepo
               (result\<lparr> localRepo := Some l, SourceKind := ''local'',
                         SourceUUID := local_UUID l \<rparr>)
               (NLocalRepo l) prefix distribution component cf
         | SrcOther \<Rightarrow> Some (Inl (Panic ''unknown source kind'')))"

section \<open>Encode and Decode\<close>

text \<open>
  The msgpack codec is a library: \<open>encoder.Encode(p)\<close> and \<open>decoder.Decode(p)\<close> are handed
  the whole struct. It is a parameter: \<open>codec_Encode\<close> gives the bytes of a struct, and
  \<open>codec_Decode\<close> reads bytes into a struct that already exists, or fails. The type of
  the bytes is left open.
\<close>

record 'b Codec =
  codec_Encode :: "PublishedRepo \<Rightarrow> 'b"
  codec_Decode :: "'b \<Rightarrow> PublishedRepo \<Rightarrow> string + PublishedRepo"


definition Key :: "PublishedRepo \<Rightarrow> string" where
  "Key p = ''U'' @ Prefix p @ ''>>'' @ Distribution p"

definition Encode :: "'b Codec \<Rightarrow> PublishedRepo \<Rightarrow> 'b" where
  "Encode codec p = codec_Encode codec p"


section \<open>Published storage and RemoveFiles\<close>

text \<open>
  The interface \<open>aptly.PublishedStorage\<close> is a parameter: each operation takes the state
  \<open>'w\<close> of the world outside the program and returns the new one with its result.
\<close>

record ChecksumInfo =
  Size :: int
  MD5 :: string
  SHA1 :: string
  SHA256 :: string

record ('w, 'f) PublishedStorage =
  MkDir :: "string \<Rightarrow> 'w \<Rightarrow> string option \<times> 'w"
  CreateFile :: "string \<Rightarrow> 'w \<Rightarrow> (string + 'f) \<times> 'w"
  ChecksumsForFile :: "string \<Rightarrow> 'w \<Rightarrow> (string + ChecksumInfo) \<times> 'w"
  RemoveDirs :: "string \<Rightarrow> 'w \<Rightarrow> string option \<times> 'w"

definition RemoveFiles ::
  "PublishedRepo \<Rightarrow> ('w, 'f) PublishedStorage \<Rightarrow> bool \<Rightarrow> bool \<Rightarrow> 'w \<Rightarrow> error option \<times> 'w" where
  "RemoveFiles p publishedStorage removePrefix removePoolComponent w =
     (if removePrefix then
        (case RemoveDirs publishedStorage (filepath_Join [Prefix p, ''dists'']) w of
           (Some e, w1) \<Rightarrow> (Some (External e), w1)
         | (None, w1) \<Rightarrow>
             (case RemoveDirs publishedStorage (filepath_Join [Prefix p, ''pool'']) w1 of
                (Some e, w2) \<Rightarrow> (Some (External e), w2)
              | (None, w2) \<Rightarrow> (None, w2)))
      else
        (case RemoveDirs publishedStorage
                (filepath_Join [Prefix p, ''dists'', Distribution p]) w of
           (Some e, w1) \<Rightarrow> (Some (External e), w1)
         | (None, w1) \<Rightarrow>
             if removePoolComponent then
               (case RemoveDirs publishedStorage
                       (filepath_Join [Prefix p, ''pool'', Component p]) w1 of
                  (Some e, w2) \<Rightarrow> (Some (External e), w2)
                | (None, w2) \<Rightarrow> (None, w2))
             else (None, w1)))"

section \<open>PublishedRepoCollection\<close>

text \<open>
  The collection holds pointers, and \<open>Remove\<close> compares them. A pointer is an address;
  the store \<open>h\<close> gives the struct at an address. The nil pointer is no address: \<open>Add\<close>
  of nil panics before the list is touched, so that the list never holds it. The
  operations of the collection read the structs and never write them. The interface
  \<open>database.Storage\<close> is a parameter over the state \<open>'db\<close> of the database.
\<close>

type_synonym ptr = nat

record ('db, 'b) Storage =
  Put :: "string \<Rightarrow> 'b \<Rightarrow> 'db \<Rightarrow> string option \<times> 'db"
  Delete :: "string \<Rightarrow> 'db \<Rightarrow> string option \<times> 'db"

record 'db PublishedRepoCollection =
  db :: 'db
  list :: "ptr list"

definition CheckDuplicate ::
  "(ptr \<Rightarrow> PublishedRepo) \<Rightarrow> 'db PublishedRepoCollection \<Rightarrow> ptr \<Rightarrow> ptr option" where
  "CheckDuplicate h collection repo =
     find (\<lambda>r. Prefix (h r) = Prefix (h repo) \<and> Distribution (h r) = Distribution (h repo))
       (list collection)"

definition Update ::
  "(ptr \<Rightarrow> PublishedRepo) \<Rightarrow> 'b Codec \<Rightarrow> ('db, 'b) Storage \<Rightarrow> 'db PublishedRepoCollection \<Rightarrow> ptr
     \<Rightarrow> error option \<times> 'db PublishedRepoCollection" where
  "Update h codec st collection repo =
     (case Put st (Key (h repo)) (Encode codec (h repo)) (db collection) of
        (Some e, d) \<Rightarrow> (Some (External e), collection\<lparr> db := d \<rparr>)
      | (None, d) \<Rightarrow> (None, collection\<lparr> db := d \<rparr>))"

definition Add ::
  "(ptr \<Rightarrow> PublishedRepo) \<Rightarrow> 'b Codec \<Rightarrow> ('db, 'b) Storage \<Rightarrow> 'db PublishedRepoCollection \<Rightarrow> ptr
     \<Rightarrow> error option \<times> 'db PublishedRepoCollection" where
  "Add h codec st collection repo =
     (if CheckDuplicate h collection repo \<noteq> None then
        (Some (Error (''published repo with prefix/distribution '' @ Prefix (h repo) @ ''/''
                       @ Distribution (h repo) @ '' already exists'')), collection)
      else
        (case Update h codec st collection repo of
           (Some e, c) \<Rightarrow> (Some e, c)
         | (None, c) \<Rightarrow> (None, c\<lparr> list := list c @ [repo] \<rparr>)))"

definition ByPrefixDistribution ::
  "(ptr \<Rightarrow> PublishedRepo) \<Rightarrow> 'db PublishedRepoCollection \<Rightarrow> string \<Rightarrow> string \<Rightarrow> error + ptr" where
  "ByPrefixDistribution h collection prefix distribution =
     (case find (\<lambda>r. Prefix (h r) = prefix \<and> Distribution (h r) = distribution)
             (list collection) of
        Some r \<Rightarrow> Inr r
      | None \<Rightarrow> Inl (Error (''published repo with prefix/distribution '' @ prefix @ ''/''
                              @ distribution @ '' not found'')))"

text \<open>Lines 578 to 593 of \<open>Remove\<close>: the loop over the list, from index \<open>i\<close> on, on the
  triple of \<open>removePrefix\<close>, \<open>removePoolComponent\<close> and \<open>repoPosition\<close>.\<close>

fun Remove_scan ::
  "(ptr \<Rightarrow> PublishedRepo) \<Rightarrow> ptr \<Rightarrow> nat \<Rightarrow> ptr list \<Rightarrow> bool \<times> bool \<times> int \<Rightarrow> bool \<times> bool \<times> int" where
  "Remove_scan h repo i [] flags = flags"
| "Remove_scan h repo i (r # rs) (removePrefix, removePoolComponent, repoPosition) =
     (if r = repo then
        Remove_scan h repo (i + 1) rs (removePrefix, removePoolComponent, int i)
      else if Prefix (h r) = Prefix (h repo) then
        Remove_scan h repo (i + 1) rs
          (False,
           if Component (h r) = Component (h repo) then False else removePoolComponent,
           repoPosition)
      else Remove_scan h repo (i + 1) rs (removePrefix, removePoolComponent, repoPosition))"

text \<open>\<open>Remove\<close>. The last assignment overwrites the slot of the entry with the last element
  and drops the last slot; an index of \<open>-1\<close> would be out of range.\<close>

definition Remove ::
  "(ptr \<Rightarrow> PublishedRepo) \<Rightarrow> ('db, 'b) Storage \<Rightarrow> ('w, 'f) PublishedStorage
     \<Rightarrow> 'db PublishedRepoCollection \<Rightarrow> string \<Rightarrow> string \<Rightarrow> 'w
     \<Rightarrow> error option \<times> 'db PublishedRepoCollection \<times> 'w" where
  "Remove h st publishedStorage collection prefix distribution w =
     (case ByPrefixDistribution h collection prefix distribution of
        Inl e \<Rightarrow> (Some e, collection, w)
      | Inr repo \<Rightarrow>
          (case Remove_scan h repo 0 (list collection) (True, True, -1) of
             (removePrefix, removePoolComponent, repoPosition) \<Rightarrow>
               (case RemoveFiles (h repo) publishedStorage removePrefix removePoolComponent w of
                  (Some e, w1) \<Rightarrow> (Some e, collection, w1)
                | (None, w1) \<Rightarrow>
                    if repoPosition < 0 \<or> list collection = [] then
                      (Some (Panic ''index out of range''), collection, w1)
                    else
                      let l = butlast ((list collection)[nat repoPosition := last (list collection)])
                      in (case Delete st (Key (h repo)) (db collection) of
                            (Some e, d) \<Rightarrow> (Some (External e), \<lparr> db = d, list = l \<rparr>, w1)
                          | (None, d) \<Rightarrow> (None, \<lparr> db = d, list = l \<rparr>, w1)))))"





text \<open>A storage that also keeps, in order, the paths handed to \<open>RemoveDirs\<close>; it behaves as
  the storage it wraps.\<close>

definition traced :: "('w, 'f) PublishedStorage \<Rightarrow> ('w \<times> string list, 'f) PublishedStorage" where
  "traced ps =
     \<lparr> MkDir = (\<lambda>path (w, log). case MkDir ps path w of (e, w1) \<Rightarrow> (e, (w1, log))),
       CreateFile = (\<lambda>path (w, log). case CreateFile ps path w of (r, w1) \<Rightarrow> (r, (w1, log))),
       ChecksumsForFile =
         (\<lambda>path (w, log). case ChecksumsForFile ps path w of (r, w1) \<Rightarrow> (r, (w1, log))),
       RemoveDirs =
         (\<lambda>path (w, log). case RemoveDirs ps path w of (e, w1) \<Rightarrow> (e, (w1, log @ [path]))) \<rparr>"

text \<open>A path element that names one directory.\<close>

definition plainElement :: "string \<Rightarrow> bool" where
  "plainElement s = (s \<noteq> [] \<and> CHR ''/'' \<notin> set s \<and> s \<noteq> ''.'' \<and> s \<noteq> ''..'')"

section \<open>Publish\<close>

text \<open>\<open>filepath.Dir\<close>: the path up to and with its last slash, cleaned.\<close>

definition filepath_Dir :: "string \<Rightarrow> string" where
  "filepath_Dir path = Clean (rev (dropWhile (\<lambda>c. c \<noteq> CHR ''/'') (rev path)))"

text \<open>The type \<open>Stanza\<close> is a Go map from field names to texts.\<close>

type_synonym Stanza = "string \<rightharpoonup> string"

text \<open>
  What \<open>Publish\<close> uses besides the storage is a parameter as well, over the same state of
  the world: the loading of the package list, which is held as the sequence of packages
  that \<open>ForEach\<close> visits, so that \<open>Len\<close> is its length; the architectures of a list; the
  operations of a package; the buffered writer, which is named by its file; the
  compression; the clock, as the formatted date; and the order in which \<open>range\<close> visits
  the map of generated files. The progress reporter only prints and is left out. The
  three assignments of \<open>nil\<close> to fields of a package release memory that the package
  loads again when asked.
\<close>

record ('w, 'pkg, 'f) Collaborators =
  NewPackageListFromRefList :: "string list \<Rightarrow> 'w \<Rightarrow> string + 'pkg list"
  list_Architectures :: "'pkg list \<Rightarrow> bool \<Rightarrow> string list"
  MatchesArchitecture :: "'pkg \<Rightarrow> string \<Rightarrow> bool"
  LinkFromPool :: "'pkg \<Rightarrow> string \<Rightarrow> string \<Rightarrow> 'w \<Rightarrow> string option \<times> 'w"
  pkg_Stanza :: "'pkg \<Rightarrow> Stanza"
  Stanza_WriteTo :: "Stanza \<Rightarrow> 'f \<Rightarrow> 'w \<Rightarrow> string option \<times> 'w"
  WriteByte :: "'f \<Rightarrow> char \<Rightarrow> 'w \<Rightarrow> string option \<times> 'w"
  Flush :: "'f \<Rightarrow> 'w \<Rightarrow> string option \<times> 'w"
  CompressFile :: "'f \<Rightarrow> 'w \<Rightarrow> string option \<times> 'w"
  file_Close :: "'f \<Rightarrow> 'w \<Rightarrow> 'w"
  file_Name :: "'f \<Rightarrow> string"
  time_Now :: "'w \<Rightarrow> string"
  range_order :: "(string \<times> ChecksumInfo) list \<Rightarrow> (string \<times> ChecksumInfo) list"

record 'w Signer =
  DetachedSign :: "string \<Rightarrow> string \<Rightarrow> 'w \<Rightarrow> string option \<times> 'w"
  ClearSign :: "string \<Rightarrow> string \<Rightarrow> 'w \<Rightarrow> string option \<times> 'w"

text \<open>Modelled from the spec: \<open>utils.StrSlicesSubstract\<close> is not among the sources. The
  spec describes its use in \<open>Publish\<close> as the architecture list with the \<open>source\<close>
  pseudo-architecture removed: the strings of the first list that are not in the
  second.\<close>

definition StrSlicesSubstract :: "string list \<Rightarrow> string list \<Rightarrow> string list" where
  "StrSlicesSubstract l r = filter (\<lambda>x. x \<notin> set r) l"

text \<open>The verb \<open>%8d\<close> of \<open>fmt.Sprintf\<close>: decimal digits, a minus sign before a negative
  number, spaces on the left up to eight characters.\<close>

fun show_nat :: "nat \<Rightarrow> string" where
  "show_nat n =
     (if n < 10 then [''0123456789'' ! n]
      else show_nat (n div 10) @ [''0123456789'' ! (n mod 10)])"

definition show_int :: "int \<Rightarrow> string" where
  "show_int i = (if i < 0 then ''-'' @ show_nat (nat (- i)) else show_nat (nat i))"

definition fmt_8d :: "int \<Rightarrow> string" where
  "fmt_8d i = replicate (8 - length (show_int i)) (CHR '' '') @ show_int i"

definition checksum_line :: "string \<Rightarrow> int \<Rightarrow> string \<Rightarrow> string" where
  "checksum_line hash n path =
     '' '' @ hash @ '' '' @ fmt_8d n @ '' '' @ path @ [CHR 0x0A]"

text \<open>\<open>m[k] += v\<close> on a map of strings, and \<open>m[k] = v\<close> on the map of generated files,
  which is held as the list of its keys with their values.\<close>

definition stanza_append :: "Stanza \<Rightarrow> string \<Rightarrow> string \<Rightarrow> Stanza" where
  "stanza_append st k v = st(k \<mapsto> (case st k of None \<Rightarrow> [] | Some old \<Rightarrow> old) @ v)"

definition map_assign :: "string \<Rightarrow> 'v \<Rightarrow> (string \<times> 'v) list \<Rightarrow> (string \<times> 'v) list" where
  "map_assign k v m =
     (if k \<in> fst ` set m then map (\<lambda>e. if fst e = k then (k, v) else e) m else m @ [(k, v)])"

text \<open>Lines 225 to 231: the reference list of the source.\<close>

definition sourceRefList :: "PublishedRepo \<Rightarrow> error + string list" where
  "sourceRefList p =
     (case snapshot p of
        Some s \<Rightarrow> Inr (snapshot_RefList s)
      | None \<Rightarrow>
          (case localRepo p of
             Some l \<Rightarrow> Inr (local_RefList l)
           | None \<Rightarrow> Inl (Panic ''no source'')))"

text \<open>Lines 209 to 251: directories, package list and architectures. The entity is
  returned as well, since \<open>Publish\<close> assigns to its \<open>Architectures\<close>.\<close>

definition Publish_load ::
  "('w, 'pkg, 'f) Collaborators \<Rightarrow> ('w, 'f) PublishedStorage \<Rightarrow> PublishedRepo \<Rightarrow> 'w
     \<Rightarrow> (error + 'pkg list) \<times> PublishedRepo \<times> 'w" where
  "Publish_load cs publishedStorage p w =
     (case MkDir publishedStorage (filepath_Join [Prefix p, ''pool'']) w of
        (Some e, w1) \<Rightarrow> (Inl (External e), p, w1)
      | (None, w1) \<Rightarrow>
     (case MkDir publishedStorage (filepath_Join [Prefix p, ''dists'', Distribution p]) w1 of
        (Some e, w2) \<Rightarrow> (Inl (External e), p, w2)
      | (None, w2) \<Rightarrow>
     (case sourceRefList p of
        Inl e \<Rightarrow> (Inl e, p, w2)
      | Inr refList \<Rightarrow>
     (case NewPackageListFromRefList cs refList w2 of
        Inl e \<Rightarrow> (Inl (Error (''unable to load packages: '' @ e)), p, w2)
      | Inr pkgs \<Rightarrow>
          if length pkgs = 0 then (Inl (Error ''snapshot is empty''), p, w2)
          else
            let p1 = (if length (Architectures p) = 0
                      then p\<lparr> Architectures := list_Architectures cs pkgs True \<rparr> else p)
            in if length (Architectures p1) = 0 then
                 (Inl (Error
                    ''unable to figure out list of architectures, please supply explicit list''),
                  p1, w2)
               else (Inr pkgs, p1\<lparr> Architectures := sort (Architectures p1) \<rparr>, w2)))))"

text \<open>Lines 283 to 309: \<open>ForEach\<close> with the function that links and writes a package; it
  stops at the first error.\<close>

fun ForEach_publish ::
  "('w, 'pkg, 'f) Collaborators \<Rightarrow> PublishedRepo \<Rightarrow> string \<Rightarrow> 'f \<Rightarrow> 'pkg list \<Rightarrow> 'w
     \<Rightarrow> string option \<times> 'w" where
  "ForEach_publish cs p arch bufWriter [] w = (None, w)"
| "ForEach_publish cs p arch bufWriter (pkg # rest) w =
     (if MatchesArchitecture cs pkg arch then
        (case LinkFromPool cs pkg (Prefix p) (Component p) w of
           (Some e, w1) \<Rightarrow> (Some e, w1)
         | (None, w1) \<Rightarrow>
        (case Stanza_WriteTo cs (pkg_Stanza cs pkg) bufWriter w1 of
           (Some e, w2) \<Rightarrow> (Some e, w2)
         | (None, w2) \<Rightarrow>
        (case WriteByte cs bufWriter (CHR 0x0A) w2 of
           (Some e, w3) \<Rightarrow> (Some e, w3)
         | (None, w3) \<Rightarrow> ForEach_publish cs p arch bufWriter rest w3)))
      else ForEach_publish cs p arch bufWriter rest w)"

text \<open>Lines 261 to 347: the body of the loop for one architecture.\<close>

definition publishArchitecture ::
  "('w, 'pkg, 'f) Collaborators \<Rightarrow> ('w, 'f) PublishedStorage \<Rightarrow> PublishedRepo \<Rightarrow> 'pkg list
     \<Rightarrow> string \<Rightarrow> string \<Rightarrow> (string \<times> ChecksumInfo) list \<Rightarrow> 'w
     \<Rightarrow> (error + (string \<times> ChecksumInfo) list) \<times> 'w" where
  "publishArchitecture cs publishedStorage p pkgs basePath arch generatedFiles w =
     (let relativePath =
            (if arch = ''source'' then filepath_Join [Component p, ''source'', ''Sources'']
             else filepath_Join [Component p, ''binary-'' @ arch, ''Packages''])
      in
      case MkDir publishedStorage (filepath_Dir (filepath_Join [basePath, relativePath])) w of
        (Some e, w1) \<Rightarrow> (Inl (External e), w1)
      | (None, w1) \<Rightarrow>
     (case CreateFile publishedStorage (filepath_Join [basePath, relativePath]) w1 of
        (Inl e, w2) \<Rightarrow> (Inl (Error (''unable to creates Packages file: '' @ e)), w2)
      | (Inr packagesFile, w2) \<Rightarrow>
     (case ForEach_publish cs p arch packagesFile pkgs w2 of
        (Some e, w3) \<Rightarrow> (Inl (Error (''unable to process packages: '' @ e)), w3)
      | (None, w3) \<Rightarrow>
     (case Flush cs packagesFile w3 of
        (Some e, w4) \<Rightarrow> (Inl (Error (''unable to write Packages file: '' @ e)), w4)
      | (None, w4) \<Rightarrow>
     (case CompressFile cs packagesFile w4 of
        (Some e, w5) \<Rightarrow> (Inl (Error (''unable to compress Packages files: '' @ e)), w5)
      | (None, w5) \<Rightarrow>
     (case ChecksumsForFile publishedStorage (filepath_Join [basePath, relativePath])
             (file_Close cs packagesFile w5) of
        (Inl e, w6) \<Rightarrow> (Inl (Error (''unable to collect checksums: '' @ e)), w6)
      | (Inr info1, w6) \<Rightarrow>
     (case ChecksumsForFile publishedStorage
             (filepath_Join [basePath, relativePath @ ''.gz'']) w6 of
        (Inl e, w7) \<Rightarrow> (Inl (Error (''unable to collect checksums: '' @ e)), w7)
      | (Inr info2, w7) \<Rightarrow>
     (case ChecksumsForFile publishedStorage
             (filepath_Join [basePath, relativePath @ ''.bz2'']) w7 of
        (Inl e, w8) \<Rightarrow> (Inl (Error (''unable to collect checksums: '' @ e)), w8)
      | (Inr info3, w8) \<Rightarrow>
          (Inr (map_assign (relativePath @ ''.bz2'') info3
                 (map_assign (relativePath @ ''.gz'') info2
                   (map_assign relativePath info1 generatedFiles))), w8)))))))))"

text \<open>Lines 260 to 348: the loop over the architectures.\<close>

fun publishArchitectures ::
  "('w, 'pkg, 'f) Collaborators \<Rightarrow> ('w, 'f) PublishedStorage \<Rightarrow> PublishedRepo \<Rightarrow> 'pkg list
     \<Rightarrow> string \<Rightarrow> string list \<Rightarrow> (string \<times> ChecksumInfo) list \<Rightarrow> 'w
     \<Rightarrow> (error + (string \<times> ChecksumInfo) list) \<times> 'w" where
  "publishArchitectures cs publishedStorage p pkgs basePath [] generatedFiles w =
     (Inr generatedFiles, w)"
| "publishArchitectures cs publishedStorage p pkgs basePath (arch # rest) generatedFiles w =
     (case publishArchitecture cs publishedStorage p pkgs basePath arch generatedFiles w of
        (Inl e, w1) \<Rightarrow> (Inl e, w1)
      | (Inr generatedFiles1, w1) \<Rightarrow>
          publishArchitectures cs publishedStorage p pkgs basePath rest generatedFiles1 w1)"

text \<open>Lines 350 to 366: the Release stanza, from the date and from the generated files in
  the order in which \<open>range\<close> visits them.\<close>

definition releaseStanza ::
  "PublishedRepo \<Rightarrow> string \<Rightarrow> (string \<times> ChecksumInfo) list \<Rightarrow> Stanza" where
  "releaseStanza p date files =
     foldl (\<lambda>release (path, info).
              stanza_append
                (stanza_append
                  (stanza_append release ''MD5Sum'' (checksum_line (MD5 info) (Size info) path))
                  ''SHA1'' (checksum_line (SHA1 info) (Size info) path))
                ''SHA256'' (checksum_line (SHA256 info) (Size info) path))
       (Map.empty
          (''Origin'' \<mapsto> Prefix p @ '' '' @ Distribution p,
           ''Label'' \<mapsto> Prefix p @ '' '' @ Distribution p,
           ''Codename'' \<mapsto> Distribution p,
           ''Date'' \<mapsto> date,
           ''Components'' \<mapsto> Component p,
           ''Architectures'' \<mapsto>
              Join_sep '' '' (StrSlicesSubstract (Architectures p) [''source'']),
           ''Description'' \<mapsto> '' Generated by aptly'' @ [CHR 0x0A],
           ''MD5Sum'' \<mapsto> [CHR 0x0A],
           ''SHA1'' \<mapsto> [CHR 0x0A],
           ''SHA256'' \<mapsto> [CHR 0x0A]))
       files"

text \<open>Lines 350 to 405: the Release file and its signatures.\<close>

definition Publish_release ::
  "('w, 'pkg, 'f) Collaborators \<Rightarrow> ('w, 'f) PublishedStorage \<Rightarrow> 'w Signer option
     \<Rightarrow> PublishedRepo \<Rightarrow> string \<Rightarrow> (string \<times> ChecksumInfo) list \<Rightarrow> 'w \<Rightarrow> error option \<times> 'w" where
  "Publish_release cs publishedStorage signer p basePath generatedFiles w =
     (let release = releaseStanza p (time_Now cs w) (range_order cs generatedFiles)
      in
      case CreateFile publishedStorage (filepath_Join [basePath, ''Release'']) w of
        (Inl e, w1) \<Rightarrow> (Some (Error (''unable to create Release file: '' @ e)), w1)
      | (Inr releaseFile, w1) \<Rightarrow>
     (case Stanza_WriteTo cs release releaseFile w1 of
        (Some e, w2) \<Rightarrow> (Some (Error (''unable to create Release file: '' @ e)), w2)
      | (None, w2) \<Rightarrow>
     (case Flush cs releaseFile w2 of
        (Some e, w3) \<Rightarrow> (Some (Error (''unable to create Release file: '' @ e)), w3)
      | (None, w3) \<Rightarrow>
     (case signer of
        None \<Rightarrow> (None, file_Close cs releaseFile w3)
      | Some sg \<Rightarrow>
     (case DetachedSign sg (file_Name cs releaseFile) (file_Name cs releaseFile @ ''.gpg'')
             (file_Close cs releaseFile w3) of
        (Some e, w4) \<Rightarrow> (Some (Error (''unable to sign Release file: '' @ e)), w4)
      | (None, w4) \<Rightarrow>
     (case ClearSign sg (file_Name cs releaseFile)
             (filepath_Join [filepath_Dir (file_Name cs releaseFile), ''InRelease'']) w4 of
        (Some e, w5) \<Rightarrow> (Some (Error (''unable to sign Release file: '' @ e)), w5)
      | (None, w5) \<Rightarrow> (None, w5)))))))"

text \<open>\<open>Publish\<close>: the error or \<open>nil\<close>, the entity as \<open>Publish\<close> leaves it, and the world.\<close>

definition Publish ::
  "('w, 'pkg, 'f) Collaborators \<Rightarrow> ('w, 'f) PublishedStorage \<Rightarrow> 'w Signer option
     \<Rightarrow> PublishedRepo \<Rightarrow> 'w \<Rightarrow> error option \<times> PublishedRepo \<times> 'w" where
  "Publish cs publishedStorage signer p w =
     (case Publish_load cs publishedStorage p w of
        (Inl e, p1, w1) \<Rightarrow> (Some e, p1, w1)
      | (Inr pkgs, p1, w1) \<Rightarrow>
          let basePath = filepath_Join [Prefix p, ''dists'', Distribution p]
          in (case publishArchitectures cs publishedStorage p1 pkgs basePath
                     (Architectures p1) [] w1 of
                (Inl e, w2) \<Rightarrow> (Some e, p1, w2)
              | (Inr generatedFiles, w2) \<Rightarrow>
                  (case Publish_release cs publishedStorage signer p1 basePath generatedFiles w2 of
                     (e, w3) \<Rightarrow> (e, p1, w3))))"

text \<open>Collaborators that also keep, in order, each stanza handed to \<open>WriteTo\<close> with the file
  it is written to, and the same storage and signer beside them; they behave as the
  ones they wrap.\<close>

definition with_log :: "('w \<Rightarrow> 'r \<times> 'w) \<Rightarrow> 'w \<times> 'l \<Rightarrow> 'r \<times> 'w \<times> 'l" where
  "with_log f = (\<lambda>(w, log). case f w of (r, w1) \<Rightarrow> (r, (w1, log)))"

definition lifted_storage :: "('w, 'f) PublishedStorage \<Rightarrow> ('w \<times> 'l, 'f) PublishedStorage" where
  "lifted_storage ps =
     \<lparr> MkDir = (\<lambda>path. with_log (MkDir ps path)),
       CreateFile = (\<lambda>path. with_log (CreateFile ps path)),
       ChecksumsForFile = (\<lambda>path. with_log (ChecksumsForFile ps path)),
       RemoveDirs = (\<lambda>path. with_log (RemoveDirs ps path)) \<rparr>"

definition lifted_signer :: "'w Signer \<Rightarrow> ('w \<times> 'l) Signer" where
  "lifted_signer sg =
     \<lparr> DetachedSign = (\<lambda>a b. with_log (DetachedSign sg a b)),
       ClearSign = (\<lambda>a b. with_log (ClearSign sg a b)) \<rparr>"

definition recording ::
  "('w, 'pkg, 'f) Collaborators \<Rightarrow> ('w \<times> (Stanza \<times> 'f) list, 'pkg, 'f) Collaborators" where
  "recording cs =
     \<lparr> NewPackageListFromRefList = (\<lambda>refList (w, log). NewPackageListFromRefList cs refList w),
       list_Architectures = list_Architectures cs,
       MatchesArchitecture = MatchesArchitecture cs,
       LinkFromPool = (\<lambda>pkg prefix component. with_log (LinkFromPool cs pkg prefix component)),
       pkg_Stanza = pkg_Stanza cs,
       Stanza_WriteTo =
         (\<lambda>stanza f (w, log).
            case Stanza_WriteTo cs stanza f w of (e, w1) \<Rightarrow> (e, (w1, log @ [(stanza, f)]))),
       WriteByte = (\<lambda>f c. with_log (WriteByte cs f c)),
       Flush = (\<lambda>f. with_log (Flush cs f)),
       CompressFile = (\<lambda>f. with_log (CompressFile cs f)),
       file_Close = (\<lambda>f (w, log). (file_Close cs f w, log)),
       file_Name = file_Name cs,
       time_Now = (\<lambda>(w, log). time_Now cs w),
       range_order = range_order cs \<rparr>"

section \<open>Auxiliary notions\<close>

text \<open>What the loop of \<open>Remove\<close> looks for: an entry other than \<open>x\<close> with the prefix of
  \<open>x\<close>, and one that has its component as well.\<close>

definition sharesPrefix :: "(ptr \<Rightarrow> PublishedRepo) \<Rightarrow> ptr list \<Rightarrow> ptr \<Rightarrow> bool" where
  "sharesPrefix h l x = (\<exists>y\<in>set l. y \<noteq> x \<and> Prefix (h y) = Prefix (h x))"

definition sharesComponent :: "(ptr \<Rightarrow> PublishedRepo) \<Rightarrow> ptr list \<Rightarrow> ptr \<Rightarrow> bool" where
  "sharesComponent h l x =
     (\<exists>y\<in>set l. y \<noteq> x \<and> Prefix (h y) = Prefix (h x) \<and> Component (h y) = Component (h x))"

text \<open>The elements that \<open>Clean\<close> keeps of a path, and the text that \<open>Clean\<close> puts before
  one more element.\<close>

definition stackOf :: "string \<Rightarrow> string list" where
  "stackOf path = foldl (clean_step (HasPrefix_slash path)) [] (Split_slash path)"

definition lead :: "string \<Rightarrow> string" where
  "lead path = (if HasPrefix_slash path then ''/'' else []) @
     (if stackOf path = [] then [] else Join_sep ''/'' (rev (stackOf path)) @ ''/'')"

text \<open>The measure of the frontier of the walk: a snapshot counts one more than its rank,
  a repository counts nothing. A rank is any number that falls from a snapshot to each
  snapshot found among its sources; one exists exactly when no snapshot is reached
  from itself.\<close>

definition node_rank :: "(Snapshot \<Rightarrow> nat) \<Rightarrow> node \<Rightarrow> nat" where
  "node_rank rank n = (case n of NSnapshot s \<Rightarrow> Suc (rank s) | _ \<Rightarrow> 0)"

definition ranked :: "CollectionFactory \<Rightarrow> (Snapshot \<Rightarrow> nat) \<Rightarrow> bool" where
  "ranked cf rank =
     (\<forall>s u t. snapshot_SourceKind s = ''snapshot'' \<and> u \<in> set (snapshot_SourceIDs s)
               \<and> Snapshot_ByUUID cf u = Some t \<longrightarrow> rank t < rank s)"

section \<open>Example data\<close>

text \<open>A remote repository, a snapshot taken of it, and a factory that finds the
  repository; then the same with a repository of two components.\<close>

definition example_remote :: RemoteRepo where
  "example_remote = \<lparr> remote_Distribution = ''wheezy'', remote_Components = [''main''] \<rparr>"

definition example_factory :: CollectionFactory where
  "example_factory =
     \<lparr> RemoteRepo_ByUUID = (\<lambda>u. if u = ''r1'' then Some example_remote else None),
       LocalRepo_ByUUID = (\<lambda>u. None),
       Snapshot_ByUUID = (\<lambda>u. None) \<rparr>"

definition example_snapshot :: Snapshot where
  "example_snapshot =
     \<lparr> snapshot_UUID = ''s1'', snapshot_SourceKind = ''repo'', snapshot_SourceIDs = [''r1''],
       snapshot_RefList = [''Pamd64 hello 1.0''] \<rparr>"

definition example_remote2 :: RemoteRepo where
  "example_remote2 = \<lparr> remote_Distribution = ''wheezy'', remote_Components = [''main'', ''contrib''] \<rparr>"

definition example_factory2 :: CollectionFactory where
  "example_factory2 =
     \<lparr> RemoteRepo_ByUUID = (\<lambda>u. if u = ''r1'' then Some example_remote2 else None),
       LocalRepo_ByUUID = (\<lambda>u. None),
       Snapshot_ByUUID = (\<lambda>u. None) \<rparr>"

text \<open>Four entities at the addresses 0 to 3, and one more at every other address.\<close>

definition example_repo :: "string \<Rightarrow> string \<Rightarrow> string \<Rightarrow> PublishedRepo" where
  "example_repo prefix distribution component =
     \<lparr> UUID = ''u-'' @ prefix @ ''-'' @ distribution, Prefix = prefix,
       Distribution = distribution, Component = component, Architectures = [''amd64''],
       SourceKind = ''snapshot'', SourceUUID = ''s1'', snapshot = None, localRepo = None \<rparr>"

definition example_heap :: "ptr \<Rightarrow> PublishedRepo" where
  "example_heap a =
     (if a = 0 then example_repo ''p'' ''a'' ''main''
      else if a = 1 then example_repo ''p'' ''b'' ''main''
      else if a = 2 then example_repo ''p'' ''.'' ''main''
      else if a = 3 then example_repo ''p'' ''a'' ''contrib''
      else example_repo ''q'' ''a'' ''main'')"

text \<open>A codec whose bytes are the struct itself, a database kept as a list of keys and
  values, a database that refuses every write, a storage where every operation
  succeeds, and one that refuses every removal.\<close>

definition example_codec :: "PublishedRepo Codec" where
  "example_codec =
     \<lparr> codec_Encode = (\<lambda>p. p),
       codec_Decode = (\<lambda>b q. Inr (b\<lparr> snapshot := snapshot q, localRepo := localRepo q \<rparr>)) \<rparr>"

definition example_db :: "((string \<times> PublishedRepo) list, PublishedRepo) Storage" where
  "example_db =
     \<lparr> Put = (\<lambda>k v d. (None, (k, v) # filter (\<lambda>e. fst e \<noteq> k) d)),
       Delete = (\<lambda>k d. (None, filter (\<lambda>e. fst e \<noteq> k) d)) \<rparr>"

definition failing_db :: "((string \<times> PublishedRepo) list, PublishedRepo) Storage" where
  "failing_db =
     \<lparr> Put = (\<lambda>k v d. (Some ''read-only database'', d)),
       Delete = (\<lambda>k d. (Some ''read-only database'', d)) \<rparr>"

definition example_storage :: "(unit, string) PublishedStorage" where
  "example_storage =
     \<lparr> MkDir = (\<lambda>path w. (None, w)),
       CreateFile = (\<lambda>path w. (Inr path, w)),
       ChecksumsForFile =
         (\<lambda>path w. (Inr \<lparr> Size = 0, MD5 = ''m'', SHA1 = ''s'', SHA256 = ''t'' \<rparr>, w)),
       RemoveDirs = (\<lambda>path w. (None, w)) \<rparr>"

definition failing_storage :: "(unit, string) PublishedStorage" where
  "failing_storage =
     \<lparr> MkDir = (\<lambda>path w. (None, w)),
       CreateFile = (\<lambda>path w. (Inr path, w)),
       ChecksumsForFile =
         (\<lambda>path w. (Inr \<lparr> Size = 0, MD5 = ''m'', SHA1 = ''s'', SHA256 = ''t'' \<rparr>, w)),
       RemoveDirs = (\<lambda>path w. (Some ''permission denied'', w)) \<rparr>"


text \<open>Collaborators for a package list in which a package is the name of its
  architecture and the reference list is the list of the packages: nothing fails, and
  the architectures of a list are its distinct names other than \<open>all\<close>.\<close>

definition example_collaborators :: "(unit, string, string) Collaborators" where
  "example_collaborators =
     \<lparr> NewPackageListFromRefList = (\<lambda>refList w. Inr refList),
       list_Architectures =
         (\<lambda>pkgs includeSource.
            remdups (filter (\<lambda>a. a \<noteq> ''all'' \<and> (a \<noteq> ''source'' \<or> includeSource)) pkgs)),
       MatchesArchitecture = (\<lambda>pkg arch. pkg = arch),
       LinkFromPool = (\<lambda>pkg prefix component w. (None, w)),
       pkg_Stanza = (\<lambda>pkg. [''Architecture'' \<mapsto> pkg]),
       Stanza_WriteTo = (\<lambda>stanza f w. (None, w)),
       WriteByte = (\<lambda>f c w. (None, w)),
       Flush = (\<lambda>f w. (None, w)),
       CompressFile = (\<lambda>f w. (None, w)),
       file_Close = (\<lambda>f w. w),
       file_Name = (\<lambda>f. f),
       time_Now = (\<lambda>w. ''Sat, 31 Oct 2026 12:00:00 UTC''),
       range_order = (\<lambda>files. files) \<rparr>"

definition example_published :: "string list \<Rightarrow> string list \<Rightarrow> PublishedRepo" where
  "example_published architectures refList =
     (example_repo ''.'' ''stable'' ''main'')
       \<lparr> Architectures := architectures,
         snapshot := Some \<lparr> snapshot_UUID = ''s1'', snapshot_SourceKind = ''repo'',
                            snapshot_SourceIDs = [''r1''], snapshot_RefList = refList \<rparr> \<rparr>"

text \<open>A signer that refuses to sign.\<close>

definition failing_signer :: "unit Signer" where
  "failing_signer =
     \<lparr> DetachedSign = (\<lambda>a b w. (Some ''no secret key'', w)),
       ClearSign = (\<lambda>a b w. (Some ''no secret key'', w)) \<rparr>"

text \<open>A snapshot merged from a snapshot of the remote repository and a snapshot of a local
  repository with another distribution; one of its sources is missing.\<close>

definition example_factory3 :: CollectionFactory where
  "example_factory3 =
     \<lparr> RemoteRepo_ByUUID = (\<lambda>u. if u = ''r1'' then Some example_remote else None),
       LocalRepo_ByUUID =
         (\<lambda>u. if u = ''l1''
              then Some \<lparr> local_UUID = ''l1'', DefaultDistribution = ''jessie'',
                           DefaultComponent = ''main'', local_RefList = [] \<rparr>
              else None),
       Snapshot_ByUUID =
         (\<lambda>u. if u = ''s1'' then Some example_snapshot
              else if u = ''s2''
              then Some \<lparr> snapshot_UUID = ''s2'', snapshot_SourceKind = ''local'',
                           snapshot_SourceIDs = [''l1''], snapshot_RefList = [] \<rparr>
              else None) \<rparr>"

definition merged_snapshot :: Snapshot where
  "merged_snapshot =
     \<lparr> snapshot_UUID = ''s3'', snapshot_SourceKind = ''snapshot'',
       snapshot_SourceIDs = [''s1'', ''gone'', ''s2''], snapshot_RefList = [] \<rparr>"

text \<open>A snapshot that names itself as its source, as only a damaged database holds.\<close>

definition cyclic_snapshot :: Snapshot where
  "cyclic_snapshot =
     \<lparr> snapshot_UUID = ''c1'', snapshot_SourceKind = ''snapshot'',
       snapshot_SourceIDs = [''c1''], snapshot_RefList = [] \<rparr>"

definition cyclic_factory :: CollectionFactory where
  "cyclic_factory =
     \<lparr> RemoteRepo_ByUUID = (\<lambda>u. None),
       LocalRepo_ByUUID = (\<lambda>u. None),
       Snapshot_ByUUID = (\<lambda>u. if u = ''c1'' then Some cyclic_snapshot else None) \<rparr>"

section \<open>Properties\<close>

lemma sorted_hd_least: "sorted ys \<Longrightarrow> x \<in> set ys \<Longrightarrow> hd ys \<le> x"
  by (cases ys) auto

lemma sorted_last_greatest: "sorted ys \<Longrightarrow> x \<in> set ys \<Longrightarrow> x \<le> last ys"
  by (induction ys) (auto split: if_splits)

lemma hd_last_sort_iff:
  fixes xs :: "string list"
  shows "(length (sort xs) > 0 \<and> hd (sort xs) = last (sort xs)) \<longleftrightarrow>
         (xs \<noteq> [] \<and> (\<forall>x\<in>set xs. x = hd xs))"
proof (cases "xs = []")
  case True
  then show ?thesis by simp
next
  case False
  let ?ys = "sort xs"
  have ne: "?ys \<noteq> []" using False by (metis length_sort length_0_conv)
  have hdin: "hd ?ys \<in> set xs" using ne by (metis hd_in_set set_sort)
  have lastin: "last ?ys \<in> set xs" using ne by (metis last_in_set set_sort)
  show ?thesis
  proof
    assume a: "length ?ys > 0 \<and> hd ?ys = last ?ys"
    have "\<forall>x\<in>set xs. x = hd ?ys"
    proof
      fix x assume "x \<in> set xs"
      then have xin: "x \<in> set ?ys" by simp
      have "hd ?ys \<le> x" using sorted_hd_least [OF sorted_sort xin] .
      moreover have "x \<le> last ?ys" using sorted_last_greatest [OF sorted_sort xin] .
      ultimately show "x = hd ?ys" using a by simp
    qed
    moreover have "hd xs \<in> set xs" using False by simp
    ultimately show "xs \<noteq> [] \<and> (\<forall>x\<in>set xs. x = hd xs)" using False by metis
  next
    assume b: "xs \<noteq> [] \<and> (\<forall>x\<in>set xs. x = hd xs)"
    have "hd ?ys = hd xs" using b hdin by blast
    moreover have "last ?ys = hd xs" using b lastin by blast
    ultimately show "length ?ys > 0 \<and> hd ?ys = last ?ys"
      using ne by (metis length_greater_0_conv)
  qed
qed

lemma hd_sort_all_equal:
  fixes xs :: "string list"
  assumes "xs \<noteq> []" "\<forall>x\<in>set xs. x = hd xs"
  shows "hd (sort xs) = hd xs"
proof -
  have "sort xs \<noteq> []" using assms(1) by (metis length_sort length_0_conv)
  then have "hd (sort xs) \<in> set xs" by (metis hd_in_set set_sort)
  then show ?thesis using assms(2) by simp
qed

lemma guessDistribution_eq:
  "guessDistribution rd =
     (if rd \<noteq> [] \<and> (\<forall>x\<in>set rd. x = hd rd) then Inr (hd rd)
      else Inl (Error ''unable to guess distribution name, please specify explicitly''))"
proof (cases "rd \<noteq> [] \<and> (\<forall>x\<in>set rd. x = hd rd)")
  case True
  then have A: "length (sort rd) > 0 \<and> hd (sort rd) = last (sort rd)"
    using hd_last_sort_iff [of rd] by blast
  have B: "hd (sort rd) = hd rd" using True hd_sort_all_equal [of rd] by blast
  have "guessDistribution rd = Inr (hd (sort rd))"
    unfolding guessDistribution_def Let_def by (rule if_P) (rule A)
  then show ?thesis using True B by simp
next
  case False
  then have A: "\<not> (length (sort rd) > 0 \<and> hd (sort rd) = last (sort rd))"
    using hd_last_sort_iff [of rd] by blast
  have "guessDistribution rd = Inl (Error ''unable to guess distribution name, please specify explicitly'')"
    unfolding guessDistribution_def Let_def by (rule if_not_P) (rule A)
  then show ?thesis using False by simp
qed

lemma guessComponent_eq:
  "guessComponent rc =
     (if rc \<noteq> [] \<and> (\<forall>x\<in>set rc. x = hd rc) then hd rc else ''main'')"
proof (cases "rc \<noteq> [] \<and> (\<forall>x\<in>set rc. x = hd rc)")
  case True
  then have A: "length (sort rc) > 0 \<and> hd (sort rc) = last (sort rc)"
    using hd_last_sort_iff [of rc] by blast
  have B: "hd (sort rc) = hd rc" using True hd_sort_all_equal [of rc] by blast
  have "guessComponent rc = hd (sort rc)"
    unfolding guessComponent_def Let_def by (rule if_P) (rule A)
  then show ?thesis using True B by simp
next
  case False
  then have A: "\<not> (length (sort rc) > 0 \<and> hd (sort rc) = last (sort rc))"
    using hd_last_sort_iff [of rc] by blast
  have "guessComponent rc = ''main''"
    unfolding guessComponent_def Let_def by (rule if_not_P) (rule A)
  then show ?thesis using False by auto
qed

lemma Clean_empty: "Clean [] = ''.''" by (simp add: Clean_def)

lemma Clean_dot: "Clean ''.'' = ''.''" by (simp add: Clean_def HasPrefix_slash_def clean_step_def)

lemma Clean_slash: "Clean ''/'' = ''/''" by (simp add: Clean_def HasPrefix_slash_def clean_step_def)

lemma normalizePrefix_empty: "normalizePrefix [] = ''.''"
  by (simp add: normalizePrefix_def Clean_empty Clean_dot HasPrefix_slash_def HasSuffix_slash_def)

lemma normalizePrefix_slash: "normalizePrefix ''/'' = ''.''"
  by (simp add: normalizePrefix_def Clean_empty Clean_slash HasPrefix_slash_def HasSuffix_slash_def)

lemma not_rejected_dot: "\<not> prefixRejected ''.''"
  by (simp add: prefixRejected_def invalidPart_def)



lemma rejected_foo_dists_x: "prefixRejected ''foo/dists/x''"
  by (simp add: prefixRejected_def invalidPart_def)

lemma example_walk:
  "walk example_factory [NSnapshot example_snapshot] [] [] = Some ([''main''], [''wheezy''])"
  by (simp add: walk.simps expand_def example_factory_def example_snapshot_def example_remote_def)

lemma finish_rejected:
  "prefixRejected (normalizePrefix prefix) \<Longrightarrow>
   finishPublishedRepo result start prefix distribution component cf =
     Some (Inl (Error (''invalid prefix '' @ normalizePrefix prefix)))"
  by (simp add: finishPublishedRepo_def Let_def)

lemma finish_accepted:
  "\<not> prefixRejected (normalizePrefix prefix) \<Longrightarrow>
   finishPublishedRepo result start prefix distribution component cf =
     (case guess cf start distribution component of
        None \<Rightarrow> None
      | Some (Inl e) \<Rightarrow> Some (Inl e)
      | Some (Inr (d, c)) \<Rightarrow>
          Some (Inr (result\<lparr> Prefix := normalizePrefix prefix, Distribution := d,
                             Component := c \<rparr>)))"
  by (simp add: finishPublishedRepo_def Let_def)

lemma guess_given:
  "distribution \<noteq> [] \<Longrightarrow> component \<noteq> [] \<Longrightarrow>
   guess cf start distribution component = Some (Inr (distribution, component))"
  by (simp add: guess_def)

lemma guess_walked:
  "component = [] \<or> distribution = [] \<Longrightarrow> walk cf [start] [] [] = Some (rc, rd) \<Longrightarrow>
   guess cf start distribution component =
     (case (if distribution = [] then guessDistribution rd else Inr distribution) of
        Inl e \<Rightarrow> Some (Inl e)
      | Inr d \<Rightarrow> Some (Inr (d, if component = [] then guessComponent rc else component)))"
  by (simp add: guess_def)

text \<open>
  Claim C9. For a source that is a snapshot or a local repository and a distribution and
  a component that are both given, \<open>NewPublishedRepo\<close> called with the prefix \<open>""\<close> or
  \<open>"/"\<close> succeeds, and the prefix of the entity is \<open>"."\<close>.
\<close>

theorem C9_root_prefix:
  assumes "src \<noteq> SrcOther" and "distribution \<noteq> []" and "component \<noteq> []"
      and "prefix = [] \<or> prefix = ''/''"
  shows "\<exists>r. NewPublishedRepo newUUID prefix distribution component architectures src cf
               = Some (Inr r) \<and> Prefix r = ''.''"
proof -
  have n: "normalizePrefix prefix = ''.''"
    using assms(4) normalizePrefix_empty normalizePrefix_slash by auto
  have acc: "\<not> prefixRejected (normalizePrefix prefix)"
    using n not_rejected_dot by simp
  show ?thesis
  proof (cases src)
    case (SrcSnapshot s)
    then show ?thesis
      using n by (simp add: NewPublishedRepo_def finish_accepted [OF acc] guess_given [OF assms(2,3)])
  next
    case (SrcLocalRepo l)
    then show ?thesis
      using n by (simp add: NewPublishedRepo_def finish_accepted [OF acc] guess_given [OF assms(2,3)])
  next
    case SrcOther
    then show ?thesis using assms(1) by simp
  qed
qed

theorem C9_root_prefix_witness:
  "SrcSnapshot example_snapshot \<noteq> SrcOther \<and> ''wheezy'' \<noteq> [] \<and> ''main'' \<noteq> [] \<and>
   (\<exists>r. NewPublishedRepo ''u1'' ''/'' ''wheezy'' ''main'' [] (SrcSnapshot example_snapshot)
           example_factory = Some (Inr r) \<and> Prefix r = ''.'')"
  using C9_root_prefix [of "SrcSnapshot example_snapshot" "''wheezy''" "''main''" "''/''"
      "''u1''" "[]" example_factory]
  by simp



lemma New_snapshot:
  "NewPublishedRepo newUUID prefix distribution component architectures (SrcSnapshot s) cf =
     finishPublishedRepo
       \<lparr> UUID = newUUID, Prefix = [], Distribution = [], Component = [],
         Architectures = architectures, SourceKind = ''snapshot'',
         SourceUUID = snapshot_UUID s, snapshot = Some s, localRepo = None \<rparr>
       (NSnapshot s) prefix distribution component cf"
  by (simp add: NewPublishedRepo_def)

lemma New_local:
  "NewPublishedRepo newUUID prefix distribution component architectures (SrcLocalRepo l) cf =
     finishPublishedRepo
       \<lparr> UUID = newUUID, Prefix = [], Distribution = [], Component = [],
         Architectures = architectures, SourceKind = ''local'',
         SourceUUID = local_UUID l, snapshot = None, localRepo = Some l \<rparr>
       (NLocalRepo l) prefix distribution component cf"
  by (simp add: NewPublishedRepo_def)

lemma New_finish:
  assumes "src = SrcSnapshot s \<and> start = NSnapshot s \<or> src = SrcLocalRepo l \<and> start = NLocalRepo l"
  shows "\<exists>result. NewPublishedRepo newUUID prefix distribution component architectures src cf =
     finishPublishedRepo result start prefix distribution component cf"
  using assms New_snapshot New_local by metis

lemma guess_distribution_walked:
  assumes "src = SrcSnapshot s \<and> start = NSnapshot s \<or>
           src = SrcLocalRepo l \<and> start = NLocalRepo l"
      and "\<not> prefixRejected (normalizePrefix prefix)"
      and "walk cf [start] [] [] = Some (rootComponents, rootDistributions)"
  shows "(rootDistributions \<noteq> [] \<and> (\<forall>d\<in>set rootDistributions. d = hd rootDistributions) \<longrightarrow>
          (\<exists>r. NewPublishedRepo newUUID prefix [] component architectures src cf = Some (Inr r)
                \<and> Distribution r = hd rootDistributions)) \<and>
         (\<not> (rootDistributions \<noteq> [] \<and> (\<forall>d\<in>set rootDistributions. d = hd rootDistributions)) \<longrightarrow>
          NewPublishedRepo newUUID prefix [] component architectures src cf =
            Some (Inl (Error ''unable to guess distribution name, please specify explicitly'')))"
proof -
  obtain result where
    new: "NewPublishedRepo newUUID prefix [] component architectures src cf
            = finishPublishedRepo result start prefix [] component cf"
    using New_finish [OF assms(1)] by blast
  have g: "guess cf start [] component =
     (case guessDistribution rootDistributions of
        Inl e \<Rightarrow> Some (Inl e)
      | Inr d \<Rightarrow> Some (Inr (d, if component = [] then guessComponent rootComponents
                              else component)))"
    using guess_walked [OF _ assms(3), of component "[]"] by simp
  show ?thesis
    unfolding new finish_accepted [OF assms(2)] g guessDistribution_eq
    by simp
qed

lemma merged_walk:
  "walk example_factory3 [NSnapshot merged_snapshot] [] [] =
     Some ([''main'', ''main''], [''wheezy'', ''jessie''])"
  by (simp add: walk.simps expand_def example_factory3_def merged_snapshot_def
      example_snapshot_def example_remote_def)


lemma guess_component_walked:
  assumes "src = SrcSnapshot s \<and> start = NSnapshot s \<or>
           src = SrcLocalRepo l \<and> start = NLocalRepo l"
      and "\<not> prefixRejected (normalizePrefix prefix)"
      and "walk cf [start] [] [] = Some (rootComponents, rootDistributions)"
  shows "(distribution \<noteq> [] \<or>
            rootDistributions \<noteq> [] \<and> (\<forall>d\<in>set rootDistributions. d = hd rootDistributions) \<longrightarrow>
          (\<exists>r. NewPublishedRepo newUUID prefix distribution [] architectures src cf = Some (Inr r)
                \<and> Component r =
                    (if rootComponents \<noteq> [] \<and> (\<forall>c\<in>set rootComponents. c = hd rootComponents)
                     then hd rootComponents else ''main''))) \<and>
         (\<not> (distribution \<noteq> [] \<or>
            rootDistributions \<noteq> [] \<and> (\<forall>d\<in>set rootDistributions. d = hd rootDistributions)) \<longrightarrow>
          NewPublishedRepo newUUID prefix distribution [] architectures src cf =
            Some (Inl (Error ''unable to guess distribution name, please specify explicitly'')))"
proof -
  obtain result where
    new: "NewPublishedRepo newUUID prefix distribution [] architectures src cf
            = finishPublishedRepo result start prefix distribution [] cf"
    using New_finish [OF assms(1)] by blast
  have g: "guess cf start distribution [] =
     (case (if distribution = [] then guessDistribution rootDistributions else Inr distribution) of
        Inl e \<Rightarrow> Some (Inl e)
      | Inr d \<Rightarrow> Some (Inr (d, guessComponent rootComponents)))"
    using guess_walked [OF _ assms(3), of "[]" distribution] by simp
  show ?thesis
    unfolding new finish_accepted [OF assms(2)] g guessDistribution_eq guessComponent_eq
    by simp
qed

lemma example_walk2:
  "walk example_factory2 [NSnapshot example_snapshot] [] [] =
     Some ([''main'', ''contrib''], [''wheezy''])"
  by (simp add: walk.simps expand_def example_factory2_def example_snapshot_def example_remote2_def)












lemma Remove_scan_flags:
  "Remove_scan h x i rs (a, b, pos) = (a', b', pos') \<Longrightarrow>
   a' = (a \<and> \<not> (\<exists>y\<in>set rs. y \<noteq> x \<and> Prefix (h y) = Prefix (h x))) \<and>
   b' = (b \<and> \<not> (\<exists>y\<in>set rs. y \<noteq> x \<and> Prefix (h y) = Prefix (h x)
                        \<and> Component (h y) = Component (h x)))"
proof (induction rs arbitrary: i a b pos)
  case Nil
  then show ?case by simp
next
  case (Cons r rs)
  show ?case
  proof (cases "r = x")
    case True
    then have "Remove_scan h x (i + 1) rs (a, b, int i) = (a', b', pos')"
      using Cons.prems by simp
    then show ?thesis using Cons.IH True by fastforce
  next
    case False
    show ?thesis
    proof (cases "Prefix (h r) = Prefix (h x)")
      case True
      then have "Remove_scan h x (i + 1) rs
                   (False, if Component (h r) = Component (h x) then False else b, pos)
                 = (a', b', pos')"
        using Cons.prems False by simp
      from Cons.IH [OF this] show ?thesis using False True by auto
    next
      case np: False
      then have "Remove_scan h x (i + 1) rs (a, b, pos) = (a', b', pos')"
        using Cons.prems False by simp
      from Cons.IH [OF this] show ?thesis using False np by auto
    qed
  qed
qed

lemma Remove_unfold:
  assumes "ByPrefixDistribution h c prefix distribution = Inr x"
   and sc: "Remove_scan h x 0 (list c) (True, True, -1) = (a, b, pos)"
   and rf: "RemoveFiles (h x) ps a b w = (eo, w1)"
   and dl: "Delete st (Key (h x)) (db c) = (ed, d)"
  shows "Remove h st ps c prefix distribution w =
     (case eo of Some e \<Rightarrow> (Some e, c, w1)
      | None \<Rightarrow>
          if pos < 0 \<or> list c = [] then (Some (Panic ''index out of range''), c, w1)
          else
            (case ed of
               Some e \<Rightarrow>
                 (Some (External e),
                  \<lparr> db = d, list = butlast ((list c)[nat pos := last (list c)]) \<rparr>, w1)
             | None \<Rightarrow>
                 (None, \<lparr> db = d, list = butlast ((list c)[nat pos := last (list c)]) \<rparr>, w1)))"
  unfolding Remove_def assms(1) sum.case sc prod.case rf
  by (cases eo; cases ed) (simp_all add: dl Let_def)

lemma Remove_scan_shares:
  "\<exists>pos. Remove_scan h x 0 l (True, True, -1) =
     (\<not> sharesPrefix h l x, \<not> sharesComponent h l x, pos)"
proof -
  obtain a b pos where sc: "Remove_scan h x 0 l (True, True, -1) = (a, b, pos)"
    by (cases "Remove_scan h x 0 l (True, True, -1)") auto
  have "a = (\<not> sharesPrefix h l x)" "b = (\<not> sharesComponent h l x)"
    using Remove_scan_flags [OF sc] by (simp_all add: sharesPrefix_def sharesComponent_def)
  then show ?thesis using sc by blast
qed

lemma Remove_failure:
  assumes "ByPrefixDistribution h c prefix distribution = Inr x"
      and "RemoveFiles (h x) ps (\<not> sharesPrefix h (list c) x) (\<not> sharesComponent h (list c) x) w
             = (Some e, w1)"
  shows "Remove h st ps c prefix distribution w = (Some e, c, w1)"
proof -
  obtain pos where sc: "Remove_scan h x 0 (list c) (True, True, -1) =
     (\<not> sharesPrefix h (list c) x, \<not> sharesComponent h (list c) x, pos)"
    using Remove_scan_shares by blast
  obtain ed d where dl: "Delete st (Key (h x)) (db c) = (ed, d)"
    by (cases "Delete st (Key (h x)) (db c)")
  show ?thesis
    using Remove_unfold [OF assms(1) sc assms(2) dl] by simp
qed

lemma Remove_world:
  assumes "ByPrefixDistribution h c prefix distribution = Inr x"
  shows "snd (snd (Remove h st ps c prefix distribution w)) =
         snd (RemoveFiles (h x) ps (\<not> sharesPrefix h (list c) x)
                (\<not> sharesComponent h (list c) x) w)"
proof -
  obtain pos where sc: "Remove_scan h x 0 (list c) (True, True, -1) =
     (\<not> sharesPrefix h (list c) x, \<not> sharesComponent h (list c) x, pos)"
    using Remove_scan_shares by blast
  obtain ed d where dl: "Delete st (Key (h x)) (db c) = (ed, d)"
    by (cases "Delete st (Key (h x)) (db c)")
  obtain eo w1 where rf: "RemoveFiles (h x) ps (\<not> sharesPrefix h (list c) x)
                (\<not> sharesComponent h (list c) x) w = (eo, w1)"
    by (cases "RemoveFiles (h x) ps (\<not> sharesPrefix h (list c) x)
                (\<not> sharesComponent h (list c) x) w")
  show ?thesis
    unfolding Remove_unfold [OF assms(1) sc rf dl] rf
    by (cases eo; cases ed) simp_all
qed

lemma Split_slash_nonempty: "Split_slash s \<noteq> []"
  by (induction s) (auto split: list.splits)

lemma Split_slash_append:
  "Split_slash (a @ CHR ''/'' # b) = Split_slash a @ Split_slash b"
  by (induction a) (auto split: list.splits simp: Split_slash_nonempty)

lemma Split_slash_plain: "CHR ''/'' \<notin> set s \<Longrightarrow> Split_slash s = [s]"
  by (induction s) auto

lemma clean_step_plain: "plainElement s \<Longrightarrow> clean_step rooted stack s = s # stack"
  by (simp add: clean_step_def plainElement_def)

lemma Join_sep_snoc: "ys \<noteq> [] \<Longrightarrow> Join_sep sep (ys @ [s]) = Join_sep sep ys @ sep @ s"
  by (induction sep ys rule: Join_sep.induct) auto

lemma HasPrefix_slash_append: "q \<noteq> [] \<Longrightarrow> HasPrefix_slash (q @ r) = HasPrefix_slash q"
  by (cases q) (simp_all add: HasPrefix_slash_def)

lemma stackOf_append_plain:
  assumes "q \<noteq> []" "plainElement s"
  shows "stackOf (q @ CHR ''/'' # s) = s # stackOf q"
proof -
  have "Split_slash (q @ CHR ''/'' # s) = Split_slash q @ [s]"
    using assms(2) by (simp add: Split_slash_append Split_slash_plain plainElement_def)
  then show ?thesis
    using assms by (simp add: stackOf_def HasPrefix_slash_append clean_step_plain)
qed

lemma Clean_top:
  assumes "path \<noteq> []" "stackOf path = x # t" "x \<noteq> []"
  shows "Clean path = (if HasPrefix_slash path then ''/'' else []) @
           (if t = [] then [] else Join_sep ''/'' (rev t) @ ''/'') @ x"
proof -
  have "Join_sep ''/'' (rev (x # t)) = (if t = [] then [] else Join_sep ''/'' (rev t) @ ''/'') @ x"
    by (simp add: Join_sep_snoc)
  then show ?thesis
    using assms unfolding Clean_def Let_def stackOf_def [symmetric]
    by simp
qed

lemma Clean_append_plain:
  assumes "q \<noteq> []" "plainElement s"
  shows "Clean (q @ CHR ''/'' # s) = lead q @ s"
proof -
  have ne: "q @ CHR ''/'' # s \<noteq> []" using assms by simp
  have s: "s \<noteq> []" using assms(2) by (simp add: plainElement_def)
  show ?thesis
    using Clean_top [OF ne stackOf_append_plain [OF assms] s] assms(1)
    by (simp add: lead_def HasPrefix_slash_append)
qed

lemma Clean_plain:
  assumes "plainElement s"
  shows "Clean s = s"
proof -
  have ne: "s \<noteq> []" using assms by (simp add: plainElement_def)
  have nr: "\<not> HasPrefix_slash s" using assms by (cases s) (auto simp: plainElement_def HasPrefix_slash_def)
  have st: "stackOf s = [s]"
    using assms by (simp add: stackOf_def Split_slash_plain plainElement_def clean_step_plain)
  show ?thesis using Clean_top [OF ne st ne] nr by simp
qed

lemma lead_append_plain:
  assumes "q \<noteq> []" "plainElement a"
  shows "lead (q @ CHR ''/'' # a) = lead q @ a @ ''/''"
proof -
  have s: "a \<noteq> []" using assms(2) by (simp add: plainElement_def)
  have "Join_sep ''/'' (rev (stackOf q) @ [a]) =
        (if stackOf q = [] then [] else Join_sep ''/'' (rev (stackOf q)) @ ''/'') @ a"
    by (simp add: Join_sep_snoc)
  then show ?thesis
    using assms(1) by (simp add: lead_def stackOf_append_plain [OF assms] HasPrefix_slash_append)
qed

lemma lead_plain:
  assumes "plainElement a"
  shows "lead a = a @ ''/''"
proof -
  have nr: "\<not> HasPrefix_slash a" using assms by (cases a) (auto simp: plainElement_def HasPrefix_slash_def)
  have st: "stackOf a = [a]"
    using assms by (simp add: stackOf_def Split_slash_plain plainElement_def clean_step_plain)
  show ?thesis by (simp add: lead_def nr st)
qed

lemma filepath_Join_under:
  assumes "plainElement a" "plainElement s"
  shows "\<exists>pre. filepath_Join [P, a, s] = pre @ a @ ''/'' @ s \<and>
               (\<forall>b. plainElement b \<longrightarrow> filepath_Join [P, b] = pre @ b)"
proof (cases "P = []")
  case True
  have a: "a \<noteq> []" using assms(1) by (simp add: plainElement_def)
  have "filepath_Join [P, a, s] = Clean (a @ CHR ''/'' # s)" using True a by simp
  then have 1: "filepath_Join [P, a, s] = [] @ a @ ''/'' @ s"
    using Clean_append_plain [OF a assms(2)] lead_plain [OF assms(1)] by simp
  have 2: "\<forall>b. plainElement b \<longrightarrow> filepath_Join [P, b] = [] @ b"
    using True Clean_plain by (simp add: plainElement_def)
  show ?thesis using 1 2 by blast
next
  case False
  have pa: "P @ CHR ''/'' # a \<noteq> []" using False by simp
  have "filepath_Join [P, a, s] = Clean ((P @ CHR ''/'' # a) @ CHR ''/'' # s)" using False by simp
  then have 1: "filepath_Join [P, a, s] = lead P @ a @ ''/'' @ s"
    using Clean_append_plain [OF pa assms(2)] lead_append_plain [OF False assms(1)] by simp
  have 2: "\<forall>b. plainElement b \<longrightarrow> filepath_Join [P, b] = lead P @ b"
    using False Clean_append_plain [OF False] by simp
  show ?thesis using 1 2 by blast
qed

lemma plain_dists: "plainElement ''dists''" by (simp add: plainElement_def)

lemma plain_pool: "plainElement ''pool''" by (simp add: plainElement_def)

lemma dists_sub_differs:
  assumes "plainElement s"
  shows "filepath_Join [P, ''dists'', s] \<noteq> filepath_Join [P, ''dists''] \<and>
         filepath_Join [P, ''dists'', s] \<noteq> filepath_Join [P, ''pool'']"
proof -
  obtain pre where 1: "filepath_Join [P, ''dists'', s] = pre @ ''dists'' @ ''/'' @ s"
    and 2: "\<forall>b. plainElement b \<longrightarrow> filepath_Join [P, b] = pre @ b"
    using filepath_Join_under [OF plain_dists assms] by blast
  show ?thesis using 1 2 plain_dists plain_pool by simp
qed

lemma pool_sub_differs:
  assumes "plainElement s"
  shows "filepath_Join [P, ''pool'', s] \<noteq> filepath_Join [P, ''dists''] \<and>
         filepath_Join [P, ''pool'', s] \<noteq> filepath_Join [P, ''pool'']"
proof -
  obtain pre where 1: "filepath_Join [P, ''pool'', s] = pre @ ''pool'' @ ''/'' @ s"
    and 2: "\<forall>b. plainElement b \<longrightarrow> filepath_Join [P, b] = pre @ b"
    using filepath_Join_under [OF plain_pool assms] by blast
  show ?thesis using 1 2 plain_dists plain_pool by simp
qed

lemma RemoveDirs_traced:
  "RemoveDirs (traced ps) path (w, log) =
     (fst (RemoveDirs ps path w), (snd (RemoveDirs ps path w), log @ [path]))"
  by (simp add: traced_def split: prod.splits)

lemma RemoveFiles_traced_log:
  "snd (snd (RemoveFiles p (traced ps) removePrefix removePoolComponent (w, log))) =
     log @
     (if removePrefix then
        (if fst (RemoveDirs ps (filepath_Join [Prefix p, ''dists'']) w) = None
         then [filepath_Join [Prefix p, ''dists''], filepath_Join [Prefix p, ''pool'']]
         else [filepath_Join [Prefix p, ''dists'']])
      else
        (if fst (RemoveDirs ps (filepath_Join [Prefix p, ''dists'', Distribution p]) w) = None
            \<and> removePoolComponent
         then [filepath_Join [Prefix p, ''dists'', Distribution p],
               filepath_Join [Prefix p, ''pool'', Component p]]
         else [filepath_Join [Prefix p, ''dists'', Distribution p]]))"
  unfolding RemoveFiles_def
  by (simp del: filepath_Join.simps add: RemoveDirs_traced split: option.splits)

lemma RemoveFiles_traced:
  "\<exists>log'. RemoveFiles p (traced ps) removePrefix removePoolComponent (w, log) =
     (fst (RemoveFiles p ps removePrefix removePoolComponent w),
      (snd (RemoveFiles p ps removePrefix removePoolComponent w), log'))"
proof (cases removePrefix)
  case True
  obtain e1 w1 where a: "RemoveDirs ps (filepath_Join [Prefix p, ''dists'']) w = (e1, w1)"
    by (cases "RemoveDirs ps (filepath_Join [Prefix p, ''dists'']) w")
  obtain e2 w2 where b: "RemoveDirs ps (filepath_Join [Prefix p, ''pool'']) w1 = (e2, w2)"
    by (cases "RemoveDirs ps (filepath_Join [Prefix p, ''pool'']) w1")
  show ?thesis
    unfolding RemoveFiles_def
    by (cases e1; cases e2)
      (simp_all add: True RemoveDirs_traced a b del: filepath_Join.simps)
next
  case False
  obtain e1 w1 where
    a: "RemoveDirs ps (filepath_Join [Prefix p, ''dists'', Distribution p]) w = (e1, w1)"
    by (cases "RemoveDirs ps (filepath_Join [Prefix p, ''dists'', Distribution p]) w")
  obtain e2 w2 where
    b: "RemoveDirs ps (filepath_Join [Prefix p, ''pool'', Component p]) w1 = (e2, w2)"
    by (cases "RemoveDirs ps (filepath_Join [Prefix p, ''pool'', Component p]) w1")
  show ?thesis
    unfolding RemoveFiles_def
    by (cases e1; cases e2; cases removePoolComponent)
      (simp_all add: False RemoveDirs_traced a b del: filepath_Join.simps)
qed

lemma Remove_traced:
  "\<exists>log'. Remove h st (traced ps) c prefix distribution (w, log) =
     (fst (Remove h st ps c prefix distribution w),
      fst (snd (Remove h st ps c prefix distribution w)),
      (snd (snd (Remove h st ps c prefix distribution w)), log'))"
proof (cases "ByPrefixDistribution h c prefix distribution")
  case (Inl e)
  then show ?thesis by (simp add: Remove_def)
next
  case (Inr x)
  obtain pos where sc: "Remove_scan h x 0 (list c) (True, True, -1) =
     (\<not> sharesPrefix h (list c) x, \<not> sharesComponent h (list c) x, pos)"
    using Remove_scan_shares by blast
  obtain ed d where dl: "Delete st (Key (h x)) (db c) = (ed, d)"
    by (cases "Delete st (Key (h x)) (db c)")
  obtain eo w1 where rf: "RemoveFiles (h x) ps (\<not> sharesPrefix h (list c) x)
                (\<not> sharesComponent h (list c) x) w = (eo, w1)"
    by (cases "RemoveFiles (h x) ps (\<not> sharesPrefix h (list c) x)
                (\<not> sharesComponent h (list c) x) w")
  obtain log1 where rt: "RemoveFiles (h x) (traced ps) (\<not> sharesPrefix h (list c) x)
                (\<not> sharesComponent h (list c) x) (w, log) = (eo, (w1, log1))"
    using RemoveFiles_traced [of "h x" ps "\<not> sharesPrefix h (list c) x"
        "\<not> sharesComponent h (list c) x" w log] rf by auto
  show ?thesis
    unfolding Remove_unfold [OF Inr sc rf dl] Remove_unfold [OF Inr sc rt dl]
    by (cases eo; cases ed) simp_all
qed

text \<open>
  Claim C1, as amended. Let \<open>x\<close> be the entry that \<open>Remove\<close> finds. What \<open>Remove\<close> does
  to the storage is what \<open>RemoveFiles\<close> does on \<open>x\<close> with \<open>removePrefix\<close> false exactly
  when another entry has the prefix of \<open>x\<close>, and \<open>removePoolComponent\<close> false exactly
  when another entry has its prefix and its component. On a storage that records the
  paths handed to \<open>RemoveDirs\<close>, \<open>Remove\<close> returns what it returns on the storage itself.
  When another entry of the list has the prefix of \<open>x\<close>, the paths handed to \<open>RemoveDirs\<close> are the join of
  prefix, \<open>dists\<close> and the distribution of \<open>x\<close>, followed, when that removal succeeded
  and no other entry has both the prefix and the component of \<open>x\<close>, by the join of
  prefix, \<open>pool\<close> and the component of \<open>x\<close>; there are no others. When no other entry
  has the prefix, they are the join of prefix and \<open>dists\<close>, followed, when that removal
  succeeded, by the join of prefix and \<open>pool\<close>. When the distribution (the component)
  names one directory, the first (the second) path of the shared case is neither of
  the two paths of the other case.
\<close>

theorem C1_remove_shared_prefix:
  assumes "ByPrefixDistribution h collection prefix distribution = Inr x"
  shows "snd (snd (Remove h st ps collection prefix distribution w)) =
           snd (RemoveFiles (h x) ps (\<not> sharesPrefix h (list collection) x)
                  (\<not> sharesComponent h (list collection) x) w) \<and>
         fst (Remove h st (traced ps) collection prefix distribution (w, [])) =
           fst (Remove h st ps collection prefix distribution w) \<and>
         fst (snd (Remove h st (traced ps) collection prefix distribution (w, []))) =
           fst (snd (Remove h st ps collection prefix distribution w)) \<and>
         fst (snd (snd (Remove h st (traced ps) collection prefix distribution (w, [])))) =
           snd (snd (Remove h st ps collection prefix distribution w)) \<and>
         (sharesPrefix h (list collection) x \<longrightarrow>
            snd (snd (snd (Remove h st (traced ps) collection prefix distribution (w, [])))) =
              (if fst (RemoveDirs ps
                         (filepath_Join [Prefix (h x), ''dists'', Distribution (h x)]) w) = None
                  \<and> \<not> sharesComponent h (list collection) x
               then [filepath_Join [Prefix (h x), ''dists'', Distribution (h x)],
                     filepath_Join [Prefix (h x), ''pool'', Component (h x)]]
               else [filepath_Join [Prefix (h x), ''dists'', Distribution (h x)]])) \<and>
         (\<not> sharesPrefix h (list collection) x \<longrightarrow>
            snd (snd (snd (Remove h st (traced ps) collection prefix distribution (w, [])))) =
              (if fst (RemoveDirs ps (filepath_Join [Prefix (h x), ''dists'']) w) = None
               then [filepath_Join [Prefix (h x), ''dists''],
                     filepath_Join [Prefix (h x), ''pool'']]
               else [filepath_Join [Prefix (h x), ''dists'']])) \<and>
         (plainElement (Distribution (h x)) \<longrightarrow>
            filepath_Join [Prefix (h x), ''dists'', Distribution (h x)]
              \<noteq> filepath_Join [Prefix (h x), ''dists''] \<and>
            filepath_Join [Prefix (h x), ''dists'', Distribution (h x)]
              \<noteq> filepath_Join [Prefix (h x), ''pool'']) \<and>
         (plainElement (Component (h x)) \<longrightarrow>
            filepath_Join [Prefix (h x), ''pool'', Component (h x)]
              \<noteq> filepath_Join [Prefix (h x), ''dists''] \<and>
            filepath_Join [Prefix (h x), ''pool'', Component (h x)]
              \<noteq> filepath_Join [Prefix (h x), ''pool''])"
proof -
  have log: "snd (snd (snd (Remove h st (traced ps) collection prefix distribution (w, [])))) =
     snd (snd (RemoveFiles (h x) (traced ps) (\<not> sharesPrefix h (list collection) x)
                (\<not> sharesComponent h (list collection) x) (w, [])))"
    unfolding Remove_world [OF assms] ..
  have 1: "sharesPrefix h (list collection) x \<longrightarrow>
            snd (snd (snd (Remove h st (traced ps) collection prefix distribution (w, [])))) =
              (if fst (RemoveDirs ps
                         (filepath_Join [Prefix (h x), ''dists'', Distribution (h x)]) w) = None
                  \<and> \<not> sharesComponent h (list collection) x
               then [filepath_Join [Prefix (h x), ''dists'', Distribution (h x)],
                     filepath_Join [Prefix (h x), ''pool'', Component (h x)]]
               else [filepath_Join [Prefix (h x), ''dists'', Distribution (h x)]])"
    unfolding log RemoveFiles_traced_log by (simp del: filepath_Join.simps)
  have 2: "\<not> sharesPrefix h (list collection) x \<longrightarrow>
            snd (snd (snd (Remove h st (traced ps) collection prefix distribution (w, [])))) =
              (if fst (RemoveDirs ps (filepath_Join [Prefix (h x), ''dists'']) w) = None
               then [filepath_Join [Prefix (h x), ''dists''],
                     filepath_Join [Prefix (h x), ''pool'']]
               else [filepath_Join [Prefix (h x), ''dists'']])"
    unfolding log RemoveFiles_traced_log by (simp del: filepath_Join.simps)
  obtain log' where tr: "Remove h st (traced ps) collection prefix distribution (w, []) =
     (fst (Remove h st ps collection prefix distribution w),
      fst (snd (Remove h st ps collection prefix distribution w)),
      (snd (snd (Remove h st ps collection prefix distribution w)), log'))"
    using Remove_traced [of h st ps collection prefix distribution w "[]"] by blast
  have 0: "fst (Remove h st (traced ps) collection prefix distribution (w, [])) =
           fst (Remove h st ps collection prefix distribution w) \<and>
         fst (snd (Remove h st (traced ps) collection prefix distribution (w, []))) =
           fst (snd (Remove h st ps collection prefix distribution w)) \<and>
         fst (snd (snd (Remove h st (traced ps) collection prefix distribution (w, [])))) =
           snd (snd (Remove h st ps collection prefix distribution w))"
    unfolding tr by simp
  have w: "snd (snd (Remove h st ps collection prefix distribution w)) =
           snd (RemoveFiles (h x) ps (\<not> sharesPrefix h (list collection) x)
                  (\<not> sharesComponent h (list collection) x) w)"
    using Remove_world [OF assms] .
  show ?thesis using w 0 1 2 dists_sub_differs pool_sub_differs by blast
qed





text \<open>
  Claim C10. When \<open>RemoveFiles\<close>, called by \<open>Remove\<close> on the entry found with the two flags
  computed from the list, returns an error, \<open>Remove\<close> returns that error, and the list and
  the database are as they were.
\<close>

theorem C10_remove_files_failure:
  assumes "ByPrefixDistribution h collection prefix distribution = Inr x"
      and "RemoveFiles (h x) publishedStorage (\<not> sharesPrefix h (list collection) x)
             (\<not> sharesComponent h (list collection) x) w = (Some e, w1)"
  shows "Remove h st publishedStorage collection prefix distribution w = (Some e, collection, w1)"
  using Remove_failure [OF assms] .

lemma example_heap_simps:
  "example_heap 0 = example_repo ''p'' ''a'' ''main''"
  "example_heap 1 = example_repo ''p'' ''b'' ''main''"
  "example_heap (Suc 0) = example_repo ''p'' ''b'' ''main''"
  "example_heap 2 = example_repo ''p'' ''.'' ''main''"
  "example_heap 3 = example_repo ''p'' ''a'' ''contrib''"
  "example_heap 4 = example_repo ''q'' ''a'' ''main''"
  by (simp_all add: example_heap_def)

lemma example_repo_fields:
  "Prefix (example_repo p d c) = p" "Distribution (example_repo p d c) = d"
  "Component (example_repo p d c) = c"
  by (simp_all add: example_repo_def)

lemma Join_p_dists_a: "filepath_Join [''p'', ''dists'', ''a''] = ''p/dists/a''"
  by (simp add: Clean_def HasPrefix_slash_def clean_step_def)

lemma Join_p_dists_dot: "filepath_Join [''p'', ''dists'', ''.''] = ''p/dists''"
  by (simp add: Clean_def HasPrefix_slash_def clean_step_def)

lemma Join_p_dists: "filepath_Join [''p'', ''dists''] = ''p/dists''"
  by (simp add: Clean_def HasPrefix_slash_def clean_step_def)

lemma Join_p_pool: "filepath_Join [''p'', ''pool''] = ''p/pool''"
  by (simp add: Clean_def HasPrefix_slash_def clean_step_def)

lemma Join_p_pool_main: "filepath_Join [''p'', ''pool'', ''main''] = ''p/pool/main''"
  by (simp add: Clean_def HasPrefix_slash_def clean_step_def)

theorem C1_remove_shared_prefix_witness:
  "ByPrefixDistribution example_heap \<lparr> db = [], list = [0, 1] \<rparr> ''p'' ''a'' = Inr 0 \<and>
   sharesPrefix example_heap [0, 1] 0 \<and>
   plainElement ''a'' \<and> plainElement ''main'' \<and>
   snd (snd (snd (Remove example_heap example_db (traced example_storage)
                    \<lparr> db = [], list = [0, 1] \<rparr> ''p'' ''a'' ((), [])))) = [''p/dists/a''] \<and>
   ''p/dists/a'' \<noteq> ''p/dists'' \<and>
   ByPrefixDistribution example_heap \<lparr> db = [], list = [0, 4] \<rparr> ''p'' ''a'' = Inr 0 \<and>
   \<not> sharesPrefix example_heap [0, 4] 0 \<and>
   snd (snd (snd (Remove example_heap example_db (traced example_storage)
                    \<lparr> db = [], list = [0, 4] \<rparr> ''p'' ''a'' ((), [])))) = [''p/dists'', ''p/pool'']"
proof -
  have f1: "ByPrefixDistribution example_heap \<lparr> db = [], list = [0, 1] \<rparr> ''p'' ''a'' = Inr 0"
    by (simp add: ByPrefixDistribution_def example_heap_simps example_repo_fields)
  have f2: "ByPrefixDistribution example_heap \<lparr> db = [], list = [0, 4] \<rparr> ''p'' ''a'' = Inr 0"
    by (simp add: ByPrefixDistribution_def example_heap_simps example_repo_fields)
  have s1: "sharesPrefix example_heap [0, 1] 0" "sharesComponent example_heap [0, 1] 0"
    by (simp_all add: sharesPrefix_def sharesComponent_def example_heap_simps example_repo_fields)
  have s2: "\<not> sharesPrefix example_heap [0, 4] 0"
    by (simp add: sharesPrefix_def example_heap_simps example_repo_fields)
  have pl: "plainElement ''a''" "plainElement ''main''" by (simp_all add: plainElement_def)
  have r: "RemoveDirs example_storage path w = (None, w)" for path w
    by (simp add: example_storage_def)
  have a: "snd (snd (snd (Remove example_heap example_db (traced example_storage)
                    \<lparr> db = [], list = [0, 1] \<rparr> ''p'' ''a'' ((), [])))) = [''p/dists/a'']"
    using C1_remove_shared_prefix [OF f1, of example_db example_storage "()"] s1
    by (simp del: filepath_Join.simps
        add: r example_heap_simps example_repo_fields Join_p_dists_a)
  have b: "snd (snd (snd (Remove example_heap example_db (traced example_storage)
                    \<lparr> db = [], list = [0, 4] \<rparr> ''p'' ''a'' ((), [])))) = [''p/dists'', ''p/pool'']"
    using C1_remove_shared_prefix [OF f2, of example_db example_storage "()"] s2
    by (simp del: filepath_Join.simps
        add: r example_heap_simps example_repo_fields Join_p_dists Join_p_pool)
  show ?thesis using f1 f2 s1 s2 pl a b by simp
qed

text \<open>
  Claim C1 as it was stated fails for an entry whose distribution is \<open>.\<close>: with another
  entry under the same prefix in the list, the one path handed to \<open>RemoveDirs\<close> is the
  join of the prefix and \<open>dists\<close>.
\<close>

theorem C1_dists_removed_counterexample:
  "ByPrefixDistribution example_heap \<lparr> db = [], list = [2, 1] \<rparr> ''p'' ''.'' = Inr 2 \<and>
   1 \<in> set (list \<lparr> db = [], list = [2, 1] \<rparr>) \<and> (1 :: ptr) \<noteq> 2 \<and>
   Prefix (example_heap 1) = Prefix (example_heap 2) \<and>
   snd (snd (snd (Remove example_heap example_db (traced example_storage)
                    \<lparr> db = [], list = [2, 1] \<rparr> ''p'' ''.'' ((), [])))) =
     [filepath_Join [Prefix (example_heap 2), ''dists'']]"
proof -
  have f: "ByPrefixDistribution example_heap \<lparr> db = [], list = [2, 1] \<rparr> ''p'' ''.'' = Inr 2"
    by (simp add: ByPrefixDistribution_def example_heap_simps example_repo_fields)
  have s: "sharesPrefix example_heap [2, 1] 2" "sharesComponent example_heap [2, 1] 2"
    by (simp_all add: sharesPrefix_def sharesComponent_def example_heap_simps example_repo_fields)
  have r: "RemoveDirs example_storage path w = (None, w)" for path w
    by (simp add: example_storage_def)
  have "snd (snd (snd (Remove example_heap example_db (traced example_storage)
                    \<lparr> db = [], list = [2, 1] \<rparr> ''p'' ''.'' ((), [])))) = [''p/dists'']"
    unfolding Remove_world [OF f] RemoveFiles_traced_log
    using s by (simp del: filepath_Join.simps
        add: r example_heap_simps example_repo_fields Join_p_dists_dot)
  then show ?thesis
    using f by (simp del: filepath_Join.simps
        add: example_heap_simps example_repo_fields Join_p_dists)
qed

theorem C10_remove_files_failure_witness:
  "ByPrefixDistribution example_heap \<lparr> db = [], list = [0, 1] \<rparr> ''p'' ''a'' = Inr 0 \<and>
   Remove example_heap example_db failing_storage \<lparr> db = [], list = [0, 1] \<rparr> ''p'' ''a'' () =
     (Some (External ''permission denied''), \<lparr> db = [], list = [0, 1] \<rparr>, ())"
proof -
  have f1: "ByPrefixDistribution example_heap \<lparr> db = [], list = [0, 1] \<rparr> ''p'' ''a'' = Inr 0"
    by (simp add: ByPrefixDistribution_def example_heap_simps example_repo_fields)
  have rf: "RemoveFiles (example_heap 0) failing_storage
              (\<not> sharesPrefix example_heap (list \<lparr> db = [], list = [0, 1] \<rparr>) 0)
              (\<not> sharesComponent example_heap (list \<lparr> db = [], list = [0, 1] \<rparr>) 0) ()
            = (Some (External ''permission denied''), ())"
    by (simp add: RemoveFiles_def failing_storage_def)
  show ?thesis
    using C10_remove_files_failure [OF f1 rf, of example_db] f1 by simp
qed



lemma example_codec_roundtrip:
  "codec_Decode example_codec (codec_Encode example_codec p) q =
     Inr (p\<lparr> snapshot := snapshot q, localRepo := localRepo q \<rparr>)"
  by (simp add: example_codec_def)



lemma Publish_load_reached:
  assumes "MkDir ps (filepath_Join [Prefix p, ''pool'']) w = (None, w1)"
      and "MkDir ps (filepath_Join [Prefix p, ''dists'', Distribution p]) w1 = (None, w2)"
      and "sourceRefList p = Inr refList"
      and "NewPackageListFromRefList cs refList w2 = Inr pkgs"
  shows "Publish_load cs ps p w =
     (if pkgs = [] then (Inl (Error ''snapshot is empty''), p, w2)
      else if (if Architectures p = [] then list_Architectures cs pkgs True
               else Architectures p) = []
      then (Inl (Error
              ''unable to figure out list of architectures, please supply explicit list''),
            p\<lparr> Architectures := [] \<rparr>, w2)
      else (Inr pkgs,
            p\<lparr> Architectures := sort (if Architectures p = [] then list_Architectures cs pkgs True
                                       else Architectures p) \<rparr>, w2))"
  unfolding Publish_load_def assms prod.case option.case sum.case Let_def
  by (simp del: filepath_Join.simps)

text \<open>
  Claim C7. Once both directories are made and the package list of the source is loaded:
  an empty list makes \<open>Publish\<close> fail with \<open>snapshot is empty\<close>, the entity unchanged;
  the architectures are those of the entity or, when it has none, those of the package
  list asked for with \<open>source\<close> included; when there are none, \<open>Publish\<close> fails and asks
  for an explicit list; otherwise the entity gets the architectures sorted, and the loop
  over the architectures runs on the sorted list.
\<close>

theorem C7_publish_checks:
  assumes "MkDir publishedStorage (filepath_Join [Prefix p, ''pool'']) w = (None, w1)"
      and "MkDir publishedStorage (filepath_Join [Prefix p, ''dists'', Distribution p]) w1
             = (None, w2)"
      and "sourceRefList p = Inr refList"
      and "NewPackageListFromRefList cs refList w2 = Inr pkgs"
      and "archs = (if Architectures p = [] then list_Architectures cs pkgs True
                    else Architectures p)"
  shows "(pkgs = [] \<longrightarrow>
            Publish cs publishedStorage signer p w = (Some (Error ''snapshot is empty''), p, w2)) \<and>
         (pkgs \<noteq> [] \<and> archs = [] \<longrightarrow>
            fst (Publish cs publishedStorage signer p w) =
              Some (Error
                ''unable to figure out list of architectures, please supply explicit list'')) \<and>
         (pkgs \<noteq> [] \<and> archs \<noteq> [] \<longrightarrow>
            sorted (sort archs) \<and>
            fst (snd (Publish cs publishedStorage signer p w)) = p\<lparr> Architectures := sort archs \<rparr> \<and>
            Publish cs publishedStorage signer p w =
              (case publishArchitectures cs publishedStorage (p\<lparr> Architectures := sort archs \<rparr>)
                      pkgs (filepath_Join [Prefix p, ''dists'', Distribution p]) (sort archs) []
                      w2 of
                 (Inl e, w3) \<Rightarrow> (Some e, p\<lparr> Architectures := sort archs \<rparr>, w3)
               | (Inr generatedFiles, w3) \<Rightarrow>
                   (case Publish_release cs publishedStorage signer
                           (p\<lparr> Architectures := sort archs \<rparr>)
                           (filepath_Join [Prefix p, ''dists'', Distribution p])
                           generatedFiles w3 of
                      (e, w4) \<Rightarrow> (e, p\<lparr> Architectures := sort archs \<rparr>, w4))))"
proof -
  note load = Publish_load_reached [OF assms(1-4), folded assms(5)]
  have 1: "pkgs = [] \<longrightarrow>
            Publish cs publishedStorage signer p w = (Some (Error ''snapshot is empty''), p, w2)"
    by (simp add: Publish_def load del: filepath_Join.simps)
  have 2: "pkgs \<noteq> [] \<and> archs = [] \<longrightarrow>
            fst (Publish cs publishedStorage signer p w) =
              Some (Error
                ''unable to figure out list of architectures, please supply explicit list'')"
    by (simp add: Publish_def load del: filepath_Join.simps)
  have 3: "pkgs \<noteq> [] \<and> archs \<noteq> [] \<longrightarrow>
            Publish cs publishedStorage signer p w =
              (case publishArchitectures cs publishedStorage (p\<lparr> Architectures := sort archs \<rparr>)
                      pkgs (filepath_Join [Prefix p, ''dists'', Distribution p]) (sort archs) []
                      w2 of
                 (Inl e, w3) \<Rightarrow> (Some e, p\<lparr> Architectures := sort archs \<rparr>, w3)
               | (Inr generatedFiles, w3) \<Rightarrow>
                   (case Publish_release cs publishedStorage signer
                           (p\<lparr> Architectures := sort archs \<rparr>)
                           (filepath_Join [Prefix p, ''dists'', Distribution p])
                           generatedFiles w3 of
                      (e, w4) \<Rightarrow> (e, p\<lparr> Architectures := sort archs \<rparr>, w4)))"
    by (simp add: Publish_def load Let_def del: filepath_Join.simps)
  have 4: "pkgs \<noteq> [] \<and> archs \<noteq> [] \<longrightarrow>
            fst (snd (Publish cs publishedStorage signer p w)) = p\<lparr> Architectures := sort archs \<rparr>"
    by (simp add: Publish_def load Let_def del: filepath_Join.simps split: prod.splits sum.splits)
  show ?thesis using 1 2 3 4 by simp
qed

lemma sort_source_amd64: "sort [''source'', ''amd64''] = [''amd64'', ''source'']"
  by code_simp

lemma example_storage_MkDir: "MkDir example_storage path w = (None, w)"
  by (simp add: example_storage_def)

lemma example_published_fields:
  "Architectures (example_published a r) = a"
  "sourceRefList (example_published a r) = Inr r"
  by (simp_all add: example_published_def sourceRefList_def)

lemma example_collaborators_load: "NewPackageListFromRefList example_collaborators r w = Inr r"
  by (simp add: example_collaborators_def)

lemma example_collaborators_all:
  "list_Architectures example_collaborators [''all''] True = []"
  by (simp add: example_collaborators_def)

theorem C7_publish_checks_witness:
  "Publish example_collaborators example_storage None (example_published [] []) () =
     (Some (Error ''snapshot is empty''), example_published [] [], ()) \<and>
   fst (Publish example_collaborators example_storage None (example_published [] [''all'']) ()) =
     Some (Error ''unable to figure out list of architectures, please supply explicit list'') \<and>
   fst (snd (Publish example_collaborators example_storage None
               (example_published [''source'', ''amd64''] [''amd64'', ''source'']) ())) =
     (example_published [''source'', ''amd64''] [''amd64'', ''source''])
       \<lparr> Architectures := [''amd64'', ''source''] \<rparr>"
proof -
  have a: "Publish example_collaborators example_storage None (example_published [] []) () =
     (Some (Error ''snapshot is empty''), example_published [] [], ())"
    using C7_publish_checks [where p = "example_published [] []"
        and signer = "None :: unit Signer option",
        OF example_storage_MkDir example_storage_MkDir
        example_published_fields(2) example_collaborators_load refl, THEN conjunct1]
    by simp
  have b: "fst (Publish example_collaborators example_storage None
                  (example_published [] [''all'']) ()) =
     Some (Error ''unable to figure out list of architectures, please supply explicit list'')"
    using C7_publish_checks [where p = "example_published [] [''all'']"
        and signer = "None :: unit Signer option",
        OF example_storage_MkDir example_storage_MkDir
        example_published_fields(2) example_collaborators_load refl,
        THEN conjunct2, THEN conjunct1]
    by (simp add: example_published_fields example_collaborators_all)
  note t = C7_publish_checks [where
          p = "example_published [''source'', ''amd64''] [''amd64'', ''source'']"
        and signer = "None :: unit Signer option",
        OF example_storage_MkDir example_storage_MkDir
        example_published_fields(2) example_collaborators_load refl,
        THEN conjunct2, THEN conjunct2]
  have pre: "[''amd64'', ''source''] \<noteq> [] \<and>
     (if Architectures (example_published [''source'', ''amd64''] [''amd64'', ''source'']) = []
      then list_Architectures example_collaborators [''amd64'', ''source''] True
      else Architectures (example_published [''source'', ''amd64''] [''amd64'', ''source'']))
     \<noteq> []"
    by (simp add: example_published_fields)
  have c: "fst (snd (Publish example_collaborators example_storage None
               (example_published [''source'', ''amd64''] [''amd64'', ''source'']) ())) =
     (example_published [''source'', ''amd64''] [''amd64'', ''source''])
       \<lparr> Architectures := [''amd64'', ''source''] \<rparr>"
    using t [THEN mp, OF pre, THEN conjunct2, THEN conjunct1]
    by (simp add: example_published_fields sort_source_amd64)
  show ?thesis by (intro conjI) (rule a b c)+
qed

lemma stanza_append_other: "k \<noteq> k' \<Longrightarrow> stanza_append st k' v k = st k"
  by (simp add: stanza_append_def)

lemma foldl_checksums_other:
  assumes "k \<noteq> ''MD5Sum''" "k \<noteq> ''SHA1''" "k \<noteq> ''SHA256''"
  shows "foldl (\<lambda>release (path, info).
              stanza_append
                (stanza_append
                  (stanza_append release ''MD5Sum'' (checksum_line (MD5 info) (Size info) path))
                  ''SHA1'' (checksum_line (SHA1 info) (Size info) path))
                ''SHA256'' (checksum_line (SHA256 info) (Size info) path)) acc files k = acc k"
proof (induction files arbitrary: acc)
  case Nil
  then show ?case by simp
next
  case (Cons e files)
  obtain path info where e: "e = (path, info)" by (cases e)
  show ?case
    unfolding foldl_Cons e prod.case Cons.IH
    using assms by (simp add: stanza_append_other)
qed

lemma releaseStanza_fields:
  "releaseStanza p date files ''Origin'' = Some (Prefix p @ '' '' @ Distribution p)"
  "releaseStanza p date files ''Label'' = Some (Prefix p @ '' '' @ Distribution p)"
  "releaseStanza p date files ''Codename'' = Some (Distribution p)"
  "releaseStanza p date files ''Components'' = Some (Component p)"
  "releaseStanza p date files ''Architectures'' =
     Some (Join_sep '' '' (filter (\<lambda>a. a \<noteq> ''source'') (Architectures p)))"
  unfolding releaseStanza_def
  by (simp_all add: foldl_checksums_other StrSlicesSubstract_def)

lemma with_log_apply: "with_log f (w, log) = (fst (f w), (snd (f w), log))"
  by (simp add: with_log_def split: prod.splits)

lemma lifted_storage_ops:
  "MkDir (lifted_storage ps) path (w, log) =
     (fst (MkDir ps path w), (snd (MkDir ps path w), log))"
  "CreateFile (lifted_storage ps) path (w, log) =
     (fst (CreateFile ps path w), (snd (CreateFile ps path w), log))"
  "ChecksumsForFile (lifted_storage ps) path (w, log) =
     (fst (ChecksumsForFile ps path w), (snd (ChecksumsForFile ps path w), log))"
  by (simp_all add: lifted_storage_def with_log_apply)

lemma lifted_signer_ops:
  "DetachedSign (lifted_signer sg) a b (w, log) =
     (fst (DetachedSign sg a b w), (snd (DetachedSign sg a b w), log))"
  "ClearSign (lifted_signer sg) a b (w, log) =
     (fst (ClearSign sg a b w), (snd (ClearSign sg a b w), log))"
  by (simp_all add: lifted_signer_def with_log_apply)

lemma recording_ops:
  "NewPackageListFromRefList (recording cs) refList (w, log) =
     NewPackageListFromRefList cs refList w"
  "list_Architectures (recording cs) = list_Architectures cs"
  "MatchesArchitecture (recording cs) = MatchesArchitecture cs"
  "LinkFromPool (recording cs) pkg a b (w, log) =
     (fst (LinkFromPool cs pkg a b w), (snd (LinkFromPool cs pkg a b w), log))"
  "pkg_Stanza (recording cs) = pkg_Stanza cs"
  "Stanza_WriteTo (recording cs) stanza f (w, log) =
     (fst (Stanza_WriteTo cs stanza f w),
      (snd (Stanza_WriteTo cs stanza f w), log @ [(stanza, f)]))"
  "WriteByte (recording cs) f c (w, log) =
     (fst (WriteByte cs f c w), (snd (WriteByte cs f c w), log))"
  "Flush (recording cs) f (w, log) = (fst (Flush cs f w), (snd (Flush cs f w), log))"
  "CompressFile (recording cs) f (w, log) =
     (fst (CompressFile cs f w), (snd (CompressFile cs f w), log))"
  "file_Close (recording cs) f (w, log) = (file_Close cs f w, log)"
  "file_Name (recording cs) = file_Name cs"
  "time_Now (recording cs) (w, log) = time_Now cs w"
  "range_order (recording cs) = range_order cs"
  by (simp_all add: recording_def with_log_apply split: prod.splits)

lemma Publish_release_recording:
  assumes "Publish_release (recording cs) (lifted_storage ps) (map_option lifted_signer signer)
             p base gen (w, log) = (None, wl)"
  shows "\<exists>f. snd wl = log @ [(releaseStanza p (time_Now cs w) (range_order cs gen), f)] \<and>
             fst (CreateFile ps (filepath_Join [base, ''Release'']) w) = Inr f"
proof -
  obtain r w1 where cf: "CreateFile ps (filepath_Join [base, ''Release'']) w = (r, w1)"
    by (cases "CreateFile ps (filepath_Join [base, ''Release'']) w")
  show ?thesis
  proof (cases r)
    case (Inl e)
    then show ?thesis
      using assms cf
      by (simp add: Publish_release_def lifted_storage_ops recording_ops Let_def
          del: filepath_Join.simps)
  next
    case (Inr f)
    have "snd wl = log @ [(releaseStanza p (time_Now cs w) (range_order cs gen), f)]"
      using assms cf Inr
      by (cases signer)
        (auto simp: Publish_release_def lifted_storage_ops recording_ops lifted_signer_ops
          Let_def simp del: filepath_Join.simps split: option.splits)
    then show ?thesis using cf Inr by simp
  qed
qed

lemma Publish_success:
  assumes "Publish cs ps signer p w = (None, p1, wl)"
  shows "\<exists>pkgs w1 gen w2. Publish_load cs ps p w = (Inr pkgs, p1, w1) \<and>
           Publish_release cs ps signer p1 (filepath_Join [Prefix p, ''dists'', Distribution p])
             gen w2 = (None, wl)"
  using assms unfolding Publish_def Let_def
  by (auto split: prod.splits sum.splits simp del: filepath_Join.simps)

lemma Publish_load_identity:
  assumes "Publish_load cs ps p w = (r, p1, w1)"
  shows "Prefix p1 = Prefix p \<and> Distribution p1 = Distribution p \<and> Component p1 = Component p"
  using assms unfolding Publish_load_def Let_def
  by (auto split: prod.splits sum.splits option.splits if_splits simp del: filepath_Join.simps)

lemma Publish_load_recording:
  "Publish_load (recording cs) (lifted_storage ps) p (w, log) =
     (case Publish_load cs ps p w of (r, p1, w1) \<Rightarrow> (r, p1, (w1, log)))"
proof -
  obtain e1 w1 where m1: "MkDir ps (filepath_Join [Prefix p, ''pool'']) w = (e1, w1)"
    by (cases "MkDir ps (filepath_Join [Prefix p, ''pool'']) w")
  obtain e2 w2 where
    m2: "MkDir ps (filepath_Join [Prefix p, ''dists'', Distribution p]) w1 = (e2, w2)"
    by (cases "MkDir ps (filepath_Join [Prefix p, ''dists'', Distribution p]) w1")
  show ?thesis
    unfolding Publish_load_def
    by (cases e1; cases e2; cases "sourceRefList p")
      (simp_all add: lifted_storage_ops recording_ops m1 m2 Let_def del: filepath_Join.simps
        split: sum.splits)
qed

lemma ForEach_publish_recording:
  "\<exists>log'. ForEach_publish (recording cs) p arch f pkgs (w, log) =
     (fst (ForEach_publish cs p arch f pkgs w), (snd (ForEach_publish cs p arch f pkgs w), log'))"
proof (induction pkgs arbitrary: w log)
  case Nil
  then show ?case by simp
next
  case (Cons pkg rest)
  show ?case
  proof (cases "MatchesArchitecture cs pkg arch")
    case False
    then show ?thesis using Cons.IH by (simp add: recording_ops)
  next
    case True
    obtain e1 w1 where l: "LinkFromPool cs pkg (Prefix p) (Component p) w = (e1, w1)"
      by (cases "LinkFromPool cs pkg (Prefix p) (Component p) w")
    obtain e2 w2 where s: "Stanza_WriteTo cs (pkg_Stanza cs pkg) f w1 = (e2, w2)"
      by (cases "Stanza_WriteTo cs (pkg_Stanza cs pkg) f w1")
    obtain e3 w3 where b: "WriteByte cs f (CHR 0x0A) w2 = (e3, w3)"
      by (cases "WriteByte cs f (CHR 0x0A) w2")
    show ?thesis
      using True Cons.IH [of w3 "log @ [(pkg_Stanza cs pkg, f)]"]
      by (cases e1; cases e2; cases e3) (simp_all add: recording_ops l s b)
  qed
qed

lemma publishArchitecture_recording:
  "\<exists>log'. publishArchitecture (recording cs) (lifted_storage ps) p pkgs base arch gen (w, log) =
     (fst (publishArchitecture cs ps p pkgs base arch gen w),
      (snd (publishArchitecture cs ps p pkgs base arch gen w), log'))"
proof -
  define rp where "rp = (if arch = ''source'' then filepath_Join [Component p, ''source'', ''Sources'']
             else filepath_Join [Component p, ''binary-'' @ arch, ''Packages''])"
  note defs = publishArchitecture_def Let_def rp_def [symmetric]
  obtain e1 w1 where m: "MkDir ps (filepath_Dir (filepath_Join [base, rp])) w = (e1, w1)"
    by (cases "MkDir ps (filepath_Dir (filepath_Join [base, rp])) w")
  obtain r2 w2 where c: "CreateFile ps (filepath_Join [base, rp]) w1 = (r2, w2)"
    by (cases "CreateFile ps (filepath_Join [base, rp]) w1")
  show ?thesis
  proof (cases e1)
    case (Some e)
    then show ?thesis
      unfolding defs by (simp add: lifted_storage_ops m del: filepath_Join.simps)
  next
    case None
    show ?thesis
    proof (cases r2)
      case (Inl e)
      then show ?thesis
        unfolding defs by (simp add: lifted_storage_ops m c None del: filepath_Join.simps)
    next
      case (Inr f)
      obtain e3 w3 where fe: "ForEach_publish cs p arch f pkgs w2 = (e3, w3)"
        by (cases "ForEach_publish cs p arch f pkgs w2")
      obtain log3 where fr: "ForEach_publish (recording cs) p arch f pkgs (w2, log) =
          (e3, (w3, log3))"
        using ForEach_publish_recording [of cs p arch f pkgs w2 log] fe by auto
      obtain e4 w4 where fl: "Flush cs f w3 = (e4, w4)" by (cases "Flush cs f w3")
      obtain e5 w5 where cp: "CompressFile cs f w4 = (e5, w5)" by (cases "CompressFile cs f w4")
      obtain r6 w6 where
        c1: "ChecksumsForFile ps (filepath_Join [base, rp]) (file_Close cs f w5) = (r6, w6)"
        by (cases "ChecksumsForFile ps (filepath_Join [base, rp]) (file_Close cs f w5)")
      obtain r7 w7 where
        c2: "ChecksumsForFile ps (filepath_Join [base, rp @ ''.gz'']) w6 = (r7, w7)"
        by (cases "ChecksumsForFile ps (filepath_Join [base, rp @ ''.gz'']) w6")
      obtain r8 w8 where
        c3: "ChecksumsForFile ps (filepath_Join [base, rp @ ''.bz2'']) w7 = (r8, w8)"
        by (cases "ChecksumsForFile ps (filepath_Join [base, rp @ ''.bz2'']) w7")
      show ?thesis
        unfolding defs
        by (cases e3; cases e4; cases e5; cases r6; cases r7; cases r8)
          (simp_all add: lifted_storage_ops recording_ops m c None Inr fe fr fl cp c1 c2 c3
            del: filepath_Join.simps)
    qed
  qed
qed

lemma publishArchitectures_recording:
  "\<exists>log'. publishArchitectures (recording cs) (lifted_storage ps) p pkgs base archs gen (w, log) =
     (fst (publishArchitectures cs ps p pkgs base archs gen w),
      (snd (publishArchitectures cs ps p pkgs base archs gen w), log'))"
proof (induction archs arbitrary: gen w log)
  case Nil
  then show ?case by simp
next
  case (Cons arch rest)
  obtain r1 w1 where a: "publishArchitecture cs ps p pkgs base arch gen w = (r1, w1)"
    by (cases "publishArchitecture cs ps p pkgs base arch gen w")
  obtain log1 where b: "publishArchitecture (recording cs) (lifted_storage ps) p pkgs base arch
      gen (w, log) = (r1, (w1, log1))"
    using publishArchitecture_recording [of cs ps p pkgs base arch gen w log] a by auto
  show ?case
  proof (cases r1)
    case (Inl e)
    then show ?thesis by (simp add: a b)
  next
    case (Inr gen1)
    then show ?thesis using Cons.IH [of gen1 w1 log1] by (simp add: a b)
  qed
qed

lemma Publish_release_transparent:
  "\<exists>log'. Publish_release (recording cs) (lifted_storage ps) (map_option lifted_signer signer)
            p base gen (w, log) =
     (fst (Publish_release cs ps signer p base gen w),
      (snd (Publish_release cs ps signer p base gen w), log'))"
proof -
  obtain r1 w1 where c: "CreateFile ps (filepath_Join [base, ''Release'']) w = (r1, w1)"
    by (cases "CreateFile ps (filepath_Join [base, ''Release'']) w")
  show ?thesis
  proof (cases r1)
    case (Inl e)
    then show ?thesis
      unfolding Publish_release_def Let_def
      by (simp add: lifted_storage_ops c del: filepath_Join.simps)
  next
    case (Inr f)
    let ?release = "releaseStanza p (time_Now cs w) (range_order cs gen)"
    obtain e2 w2 where s: "Stanza_WriteTo cs ?release f w1 = (e2, w2)"
      by (cases "Stanza_WriteTo cs ?release f w1")
    obtain e3 w3 where fl: "Flush cs f w2 = (e3, w3)" by (cases "Flush cs f w2")
    show ?thesis
    proof (cases signer)
      case None
      then show ?thesis
        unfolding Publish_release_def Let_def
        by (cases e2; cases e3)
          (simp_all add: lifted_storage_ops recording_ops c Inr s fl del: filepath_Join.simps)
    next
      case (Some sg)
      obtain e4 w4 where d: "DetachedSign sg (file_Name cs f) (file_Name cs f @ ''.gpg'')
             (file_Close cs f w3) = (e4, w4)"
        by (cases "DetachedSign sg (file_Name cs f) (file_Name cs f @ ''.gpg'')
             (file_Close cs f w3)")
      obtain e5 w5 where cl: "ClearSign sg (file_Name cs f)
             (filepath_Join [filepath_Dir (file_Name cs f), ''InRelease'']) w4 = (e5, w5)"
        by (cases "ClearSign sg (file_Name cs f)
             (filepath_Join [filepath_Dir (file_Name cs f), ''InRelease'']) w4")
      show ?thesis
        unfolding Publish_release_def Let_def
        by (cases e2; cases e3; cases e4; cases e5)
          (simp_all add: lifted_storage_ops recording_ops lifted_signer_ops c Inr s fl Some d cl
            del: filepath_Join.simps)
    qed
  qed
qed

lemma Publish_recording:
  "\<exists>log'. Publish (recording cs) (lifted_storage ps) (map_option lifted_signer signer) p (w, log) =
     (fst (Publish cs ps signer p w), fst (snd (Publish cs ps signer p w)),
      (snd (snd (Publish cs ps signer p w)), log'))"
proof -
  obtain r1 p1 w1 where l: "Publish_load cs ps p w = (r1, p1, w1)"
    by (cases "Publish_load cs ps p w")
  have lr: "Publish_load (recording cs) (lifted_storage ps) p (w, log) = (r1, p1, (w1, log))"
    by (simp add: Publish_load_recording l)
  show ?thesis
  proof (cases r1)
    case (Inl e)
    then show ?thesis by (simp add: Publish_def l lr del: filepath_Join.simps)
  next
    case (Inr pkgs)
    let ?base = "filepath_Join [Prefix p, ''dists'', Distribution p]"
    obtain r2 w2 where a: "publishArchitectures cs ps p1 pkgs ?base (Architectures p1) [] w1
        = (r2, w2)"
      by (cases "publishArchitectures cs ps p1 pkgs ?base (Architectures p1) [] w1")
    obtain log2 where ar: "publishArchitectures (recording cs) (lifted_storage ps) p1 pkgs ?base
        (Architectures p1) [] (w1, log) = (r2, (w2, log2))"
      using publishArchitectures_recording [of cs ps p1 pkgs ?base "Architectures p1" "[]" w1 log]
        a by auto
    show ?thesis
    proof (cases r2)
      case (Inl e)
      then show ?thesis by (simp add: Publish_def l lr Inr a ar Let_def del: filepath_Join.simps)
    next
      case gen: (Inr gen)
      obtain e3 w3 where r: "Publish_release cs ps signer p1 ?base gen w2 = (e3, w3)"
        by (cases "Publish_release cs ps signer p1 ?base gen w2")
      obtain log3 where rr: "Publish_release (recording cs) (lifted_storage ps)
          (map_option lifted_signer signer) p1 ?base gen (w2, log2) = (e3, (w3, log3))"
        using Publish_release_transparent [of cs ps signer p1 ?base gen w2 log2] r by auto
      show ?thesis
        by (simp add: Publish_def l lr Inr a ar gen r rr Let_def del: filepath_Join.simps)
    qed
  qed
qed

lemma example_publish_run:
  "Publish example_collaborators example_storage None
     (example_published [] [''source'', ''amd64'']) () =
   (None, (example_published [] [''source'', ''amd64''])\<lparr> Architectures := [''amd64'', ''source''] \<rparr>,
    ())"
  by code_simp

lemma NewPublishedRepo_accepts_dot:
  "NewPublishedRepo ''u-p-.'' ''p'' ''.'' ''main'' [''amd64''] (SrcSnapshot example_snapshot)
     example_factory =
   Some (Inr ((example_repo ''p'' ''.'' ''main'')\<lparr> snapshot := Some example_snapshot \<rparr>))"
  by (simp add: NewPublishedRepo_def finishPublishedRepo_def guess_def normalizePrefix_def
      Clean_def HasPrefix_slash_def HasSuffix_slash_def clean_step_def prefixRejected_def
      invalidPart_def example_repo_def example_snapshot_def)

lemma Add_failing_database:
  "Add example_heap example_codec failing_db \<lparr> db = [], list = [] \<rparr> 0 =
     (Some (External ''read-only database''), \<lparr> db = [], list = [] \<rparr>)"
  by (simp add: Add_def CheckDuplicate_def Update_def failing_db_def)

lemma Publish_release_log:
  "snd (snd (Publish_release (recording cs) (lifted_storage ps) (map_option lifted_signer signer)
               p base gen (w, log))) =
     (case fst (CreateFile ps (filepath_Join [base, ''Release'']) w) of
        Inl e \<Rightarrow> log
      | Inr f \<Rightarrow> log @ [(releaseStanza p (time_Now cs w) (range_order cs gen), f)])"
proof -
  obtain r1 w1 where c: "CreateFile ps (filepath_Join [base, ''Release'']) w = (r1, w1)"
    by (cases "CreateFile ps (filepath_Join [base, ''Release'']) w")
  show ?thesis
  proof (cases r1)
    case (Inl e)
    then show ?thesis
      unfolding Publish_release_def Let_def
      by (simp add: lifted_storage_ops c del: filepath_Join.simps)
  next
    case (Inr f)
    let ?release = "releaseStanza p (time_Now cs w) (range_order cs gen)"
    obtain e2 w2 where s: "Stanza_WriteTo cs ?release f w1 = (e2, w2)"
      by (cases "Stanza_WriteTo cs ?release f w1")
    obtain e3 w3 where fl: "Flush cs f w2 = (e3, w3)" by (cases "Flush cs f w2")
    show ?thesis
    proof (cases signer)
      case None
      then show ?thesis
        unfolding Publish_release_def Let_def
        by (cases e2; cases e3)
          (simp_all add: lifted_storage_ops recording_ops c Inr s fl del: filepath_Join.simps)
    next
      case (Some sg)
      obtain e4 w4 where d: "DetachedSign sg (file_Name cs f) (file_Name cs f @ ''.gpg'')
             (file_Close cs f w3) = (e4, w4)"
        by (cases "DetachedSign sg (file_Name cs f) (file_Name cs f @ ''.gpg'')
             (file_Close cs f w3)")
      obtain e5 w5 where cl: "ClearSign sg (file_Name cs f)
             (filepath_Join [filepath_Dir (file_Name cs f), ''InRelease'']) w4 = (e5, w5)"
        by (cases "ClearSign sg (file_Name cs f)
             (filepath_Join [filepath_Dir (file_Name cs f), ''InRelease'']) w4")
      show ?thesis
        unfolding Publish_release_def Let_def
        by (cases e2; cases e3; cases e4; cases e5)
          (simp_all add: lifted_storage_ops recording_ops lifted_signer_ops c Inr s fl Some d cl
            del: filepath_Join.simps)
    qed
  qed
qed

lemma Publish_reaches_release:
  assumes "Publish_load cs ps p w = (Inr pkgs, q, v1)"
      and "publishArchitectures cs ps q pkgs (filepath_Join [Prefix p, ''dists'', Distribution p])
             (Architectures q) [] v1 = (Inr gen, v2)"
      and "fst (CreateFile ps
                 (filepath_Join [filepath_Join [Prefix p, ''dists'', Distribution p], ''Release''])
                 v2) = Inr f"
  shows "\<exists>log2. snd (snd (snd (Publish (recording cs) (lifted_storage ps)
                                  (map_option lifted_signer signer) p (w, [])))) =
           log2 @ [(releaseStanza q (time_Now cs v2) (range_order cs gen), f)]"
proof -
  let ?base = "filepath_Join [Prefix p, ''dists'', Distribution p]"
  have lr: "Publish_load (recording cs) (lifted_storage ps) p (w, []) = (Inr pkgs, q, (v1, []))"
    by (simp add: Publish_load_recording assms(1))
  obtain log2 where ar: "publishArchitectures (recording cs) (lifted_storage ps) q pkgs ?base
        (Architectures q) [] (v1, []) = (Inr gen, (v2, log2))"
    using publishArchitectures_recording [of cs ps q pkgs ?base "Architectures q" "[]" v1 "[]"]
      assms(2) by auto
  have "snd (snd (snd (Publish (recording cs) (lifted_storage ps)
                         (map_option lifted_signer signer) p (w, [])))) =
        snd (snd (Publish_release (recording cs) (lifted_storage ps)
                    (map_option lifted_signer signer) q ?base gen (v2, log2)))"
    by (simp add: Publish_def lr ar Let_def del: filepath_Join.simps split: prod.splits)
  also have "\<dots> = log2 @ [(releaseStanza q (time_Now cs v2) (range_order cs gen), f)]"
    unfolding Publish_release_log using assms(3) by simp
  finally show ?thesis by blast
qed

text \<open>
  Claim C8. Whenever \<open>Publish\<close> gets as far as creating the file \<open>Release\<close> under the
  directory of the distribution, the last stanza written in the run, recorded beside the
  world, is written to that file and has the fields: \<open>Architectures\<close>, the architectures
  of the entity other than \<open>source\<close> joined by spaces; \<open>Origin\<close> and \<open>Label\<close>, prefix,
  space, distribution; \<open>Codename\<close>, the distribution; \<open>Components\<close>, the component. This
  holds whether or not the run fails afterwards. Whenever \<open>Publish\<close> succeeds, the
  recorded run succeeds with the same entity and world and has written that stanza.
\<close>

theorem C8_release_stanza:
  "(Publish_load cs publishedStorage p w = (Inr pkgs, q, v1) \<and>
    publishArchitectures cs publishedStorage q pkgs
      (filepath_Join [Prefix p, ''dists'', Distribution p]) (Architectures q) [] v1
      = (Inr generatedFiles, v2) \<and>
    fst (CreateFile publishedStorage
           (filepath_Join [filepath_Join [Prefix p, ''dists'', Distribution p], ''Release''])
           v2) = Inr releaseFile
    \<longrightarrow>
    (\<exists>log. snd (snd (snd (Publish (recording cs) (lifted_storage publishedStorage)
                            (map_option lifted_signer signer) p (w, [])))) = log \<and>
           log \<noteq> [] \<and> snd (last log) = releaseFile \<and>
           fst (last log) ''Architectures'' =
             Some (Join_sep '' '' (filter (\<lambda>a. a \<noteq> ''source'') (Architectures q))) \<and>
           fst (last log) ''Origin'' = Some (Prefix p @ '' '' @ Distribution p) \<and>
           fst (last log) ''Label'' = Some (Prefix p @ '' '' @ Distribution p) \<and>
           fst (last log) ''Codename'' = Some (Distribution p) \<and>
           fst (last log) ''Components'' = Some (Component p))) \<and>
   (Publish cs publishedStorage signer p w = (None, p1, w1)
    \<longrightarrow>
    (\<exists>log. Publish (recording cs) (lifted_storage publishedStorage)
                 (map_option lifted_signer signer) p (w, []) = (None, p1, (w1, log)) \<and>
           log \<noteq> [] \<and>
           fst (last log) ''Architectures'' =
             Some (Join_sep '' '' (filter (\<lambda>a. a \<noteq> ''source'') (Architectures p1))) \<and>
           fst (last log) ''Origin'' = Some (Prefix p @ '' '' @ Distribution p) \<and>
           fst (last log) ''Label'' = Some (Prefix p @ '' '' @ Distribution p) \<and>
           fst (last log) ''Codename'' = Some (Distribution p) \<and>
           fst (last log) ''Components'' = Some (Component p) \<and>
           (\<exists>w'. fst (CreateFile publishedStorage
                        (filepath_Join [filepath_Join [Prefix p, ''dists'', Distribution p],
                                        ''Release'']) w') = Inr (snd (last log)))))"
proof (intro conjI impI)
  let ?base = "filepath_Join [Prefix p, ''dists'', Distribution p]"
  assume a: "Publish_load cs publishedStorage p w = (Inr pkgs, q, v1) \<and>
    publishArchitectures cs publishedStorage q pkgs ?base (Architectures q) [] v1
      = (Inr generatedFiles, v2) \<and>
    fst (CreateFile publishedStorage (filepath_Join [?base, ''Release'']) v2) = Inr releaseFile"
  obtain log2 where lg: "snd (snd (snd (Publish (recording cs) (lifted_storage publishedStorage)
                                  (map_option lifted_signer signer) p (w, [])))) =
           log2 @ [(releaseStanza q (time_Now cs v2) (range_order cs generatedFiles), releaseFile)]"
    using Publish_reaches_release [of cs publishedStorage p w pkgs q v1 generatedFiles v2
        releaseFile signer] a by blast
  have idn: "Prefix q = Prefix p" "Distribution q = Distribution p" "Component q = Component p"
    using Publish_load_identity [of cs publishedStorage p w "Inr pkgs" q v1] a by simp_all
  show "\<exists>log. snd (snd (snd (Publish (recording cs) (lifted_storage publishedStorage)
                            (map_option lifted_signer signer) p (w, [])))) = log \<and>
           log \<noteq> [] \<and> snd (last log) = releaseFile \<and>
           fst (last log) ''Architectures'' =
             Some (Join_sep '' '' (filter (\<lambda>a. a \<noteq> ''source'') (Architectures q))) \<and>
           fst (last log) ''Origin'' = Some (Prefix p @ '' '' @ Distribution p) \<and>
           fst (last log) ''Label'' = Some (Prefix p @ '' '' @ Distribution p) \<and>
           fst (last log) ''Codename'' = Some (Distribution p) \<and>
           fst (last log) ''Components'' = Some (Component p)"
    unfolding lg by (simp add: releaseStanza_fields idn del: filepath_Join.simps)
next
  let ?base = "filepath_Join [Prefix p, ''dists'', Distribution p]"
  assume ok: "Publish cs publishedStorage signer p w = (None, p1, w1)"
  obtain log where rec: "Publish (recording cs) (lifted_storage publishedStorage)
      (map_option lifted_signer signer) p (w, []) = (None, p1, (w1, log))"
    using Publish_recording [of cs publishedStorage signer p w "[]"] ok by auto
  obtain pkgs wl1 gen wl2 where
    load: "Publish_load (recording cs) (lifted_storage publishedStorage) p (w, [])
             = (Inr pkgs, p1, wl1)" and
    rel: "Publish_release (recording cs) (lifted_storage publishedStorage)
            (map_option lifted_signer signer) p1 ?base gen wl2 = (None, (w1, log))"
    using Publish_success [OF rec] by blast
  obtain w2 log2 where wl2: "wl2 = (w2, log2)" by (cases wl2)
  obtain f where
    lg: "log = log2 @ [(releaseStanza p1 (time_Now cs w2) (range_order cs gen), f)]" and
    cf: "fst (CreateFile publishedStorage (filepath_Join [?base, ''Release'']) w2) = Inr f"
    using Publish_release_recording [OF rel [unfolded wl2]] by auto
  have idn: "Prefix p1 = Prefix p" "Distribution p1 = Distribution p" "Component p1 = Component p"
    using Publish_load_identity [OF load] by simp_all
  have lst: "last log = (releaseStanza p1 (time_Now cs w2) (range_order cs gen), f)"
    using lg by simp
  have ne: "log \<noteq> []" using lg by simp
  have cf': "\<exists>w'. fst (CreateFile publishedStorage (filepath_Join [?base, ''Release'']) w')
                = Inr (snd (last log))"
    using cf lst by (metis snd_conv)
  show "\<exists>log. Publish (recording cs) (lifted_storage publishedStorage)
                 (map_option lifted_signer signer) p (w, []) = (None, p1, (w1, log)) \<and>
           log \<noteq> [] \<and>
           fst (last log) ''Architectures'' =
             Some (Join_sep '' '' (filter (\<lambda>a. a \<noteq> ''source'') (Architectures p1))) \<and>
           fst (last log) ''Origin'' = Some (Prefix p @ '' '' @ Distribution p) \<and>
           fst (last log) ''Label'' = Some (Prefix p @ '' '' @ Distribution p) \<and>
           fst (last log) ''Codename'' = Some (Distribution p) \<and>
           fst (last log) ''Components'' = Some (Component p) \<and>
           (\<exists>w'. fst (CreateFile publishedStorage
                        (filepath_Join [filepath_Join [Prefix p, ''dists'', Distribution p],
                                        ''Release'']) w') = Inr (snd (last log)))"
    using rec ne cf' by (simp add: lst releaseStanza_fields idn del: filepath_Join.simps)
qed

lemma example_publish_load:
  "Publish_load example_collaborators example_storage
     (example_published [] [''source'', ''amd64'']) () =
   (Inr [''source'', ''amd64''],
    (example_published [] [''source'', ''amd64''])\<lparr> Architectures := [''amd64'', ''source''] \<rparr>,
    ())"
  by code_simp

lemma example_publish_unsigned:
  "fst (Publish example_collaborators example_storage (Some failing_signer)
     (example_published [] [''source'', ''amd64'']) ()) =
   Some (Error ''unable to sign Release file: no secret key'')"
  by code_simp

lemma example_publish_architectures:
  "publishArchitectures example_collaborators example_storage
     ((example_published [] [''source'', ''amd64''])\<lparr> Architectures := [''amd64'', ''source''] \<rparr>)
     [''source'', ''amd64'']
     (filepath_Join [Prefix (example_published [] [''source'', ''amd64'']), ''dists'',
                     Distribution (example_published [] [''source'', ''amd64''])])
     (Architectures
        ((example_published [] [''source'', ''amd64''])\<lparr> Architectures := [''amd64'', ''source''] \<rparr>))
     [] () =
   (Inr [(''main/binary-amd64/Packages'', \<lparr> Size = 0, MD5 = ''m'', SHA1 = ''s'', SHA256 = ''t'' \<rparr>),
         (''main/binary-amd64/Packages.gz'', \<lparr> Size = 0, MD5 = ''m'', SHA1 = ''s'', SHA256 = ''t'' \<rparr>),
         (''main/binary-amd64/Packages.bz2'', \<lparr> Size = 0, MD5 = ''m'', SHA1 = ''s'', SHA256 = ''t'' \<rparr>),
         (''main/source/Sources'', \<lparr> Size = 0, MD5 = ''m'', SHA1 = ''s'', SHA256 = ''t'' \<rparr>),
         (''main/source/Sources.gz'', \<lparr> Size = 0, MD5 = ''m'', SHA1 = ''s'', SHA256 = ''t'' \<rparr>),
         (''main/source/Sources.bz2'', \<lparr> Size = 0, MD5 = ''m'', SHA1 = ''s'', SHA256 = ''t'' \<rparr>)],
    ())"
  by code_simp

lemma example_create_release:
  "fst (CreateFile example_storage
          (filepath_Join
             [filepath_Join [Prefix (example_published [] [''source'', ''amd64'']), ''dists'',
                             Distribution (example_published [] [''source'', ''amd64''])],
              ''Release'']) ()) = Inr ''dists/stable/Release''"
  by code_simp

theorem C8_release_stanza_witness:
  "Publish example_collaborators example_storage None
     (example_published [] [''source'', ''amd64'']) () =
   (None, (example_published [] [''source'', ''amd64''])\<lparr> Architectures := [''amd64'', ''source''] \<rparr>,
    ()) \<and>
   (\<exists>log. Publish (recording example_collaborators) (lifted_storage example_storage) None
             (example_published [] [''source'', ''amd64'']) ((), []) =
           (None,
            (example_published [] [''source'', ''amd64''])\<lparr> Architectures := [''amd64'', ''source''] \<rparr>,
            ((), log)) \<and>
          fst (last log) ''Architectures'' = Some ''amd64'' \<and>
          fst (last log) ''Origin'' = Some ''. stable'' \<and>
          fst (last log) ''Label'' = Some ''. stable'' \<and>
          fst (last log) ''Codename'' = Some ''stable'' \<and>
          fst (last log) ''Components'' = Some ''main'') \<and>
   fst (Publish example_collaborators example_storage (Some failing_signer)
     (example_published [] [''source'', ''amd64'']) ()) =
     Some (Error ''unable to sign Release file: no secret key'') \<and>
   (\<exists>log. snd (snd (snd (Publish (recording example_collaborators)
                            (lifted_storage example_storage) (Some (lifted_signer failing_signer))
                            (example_published [] [''source'', ''amd64'']) ((), [])))) = log \<and>
          snd (last log) = ''dists/stable/Release'' \<and>
          fst (last log) ''Architectures'' = Some ''amd64'' \<and>
          fst (last log) ''Components'' = Some ''main'')"
proof -
  have f: "Prefix (example_published [] [''source'', ''amd64'']) = ''.''"
    "Distribution (example_published [] [''source'', ''amd64'']) = ''stable''"
    "Component (example_published [] [''source'', ''amd64'']) = ''main''"
    by (simp_all add: example_published_def example_repo_def)
  have a: "\<exists>log. Publish (recording example_collaborators) (lifted_storage example_storage) None
             (example_published [] [''source'', ''amd64'']) ((), []) =
           (None,
            (example_published [] [''source'', ''amd64''])\<lparr> Architectures := [''amd64'', ''source''] \<rparr>,
            ((), log)) \<and>
          fst (last log) ''Architectures'' = Some ''amd64'' \<and>
          fst (last log) ''Origin'' = Some ''. stable'' \<and>
          fst (last log) ''Label'' = Some ''. stable'' \<and>
          fst (last log) ''Codename'' = Some ''stable'' \<and>
          fst (last log) ''Components'' = Some ''main''"
    using C8_release_stanza [where signer = "None :: unit Signer option",
        THEN conjunct2, THEN mp, OF example_publish_run]
    by (simp add: f del: filepath_Join.simps) blast
  have b: "\<exists>log. snd (snd (snd (Publish (recording example_collaborators)
                            (lifted_storage example_storage) (Some (lifted_signer failing_signer))
                            (example_published [] [''source'', ''amd64'']) ((), [])))) = log \<and>
          snd (last log) = ''dists/stable/Release'' \<and>
          fst (last log) ''Architectures'' = Some ''amd64'' \<and>
          fst (last log) ''Components'' = Some ''main''"
    using C8_release_stanza [where signer = "Some failing_signer",
        THEN conjunct1, THEN mp,
        OF conjI [OF example_publish_load conjI [OF example_publish_architectures
                                                    example_create_release]]]
    by (simp add: f del: filepath_Join.simps)
  show ?thesis
    by (intro conjI) (rule example_publish_run a example_publish_unsigned b)+
qed

lemma expand_rank:
  assumes "ranked cf rank" "n \<in> set (expand cf s)"
  shows "node_rank rank n < Suc (rank s)"
proof (cases n)
  case (NSnapshot t)
  then obtain u where "u \<in> set (snapshot_SourceIDs s)" "snapshot_SourceKind s = ''snapshot''"
    "Snapshot_ByUUID cf u = Some t"
    using assms(2) unfolding expand_def by (auto split: option.splits if_splits)
  then have "rank t < rank s" using assms(1) unfolding ranked_def by blast
  then show ?thesis using NSnapshot by (simp add: node_rank_def)
next
  case (NLocalRepo l)
  then show ?thesis by (simp add: node_rank_def)
next
  case (NRemoteRepo r)
  then show ?thesis by (simp add: node_rank_def)
qed

lemma walk_returns:
  assumes "ranked cf rank"
  shows "\<exists>res. walk cf current rootComponents rootDistributions = Some res"
  using wf_mult1 [OF wf_less_than]
proof (induction "mset (map (node_rank rank) current)"
    arbitrary: current rootComponents rootDistributions rule: wf_induct_rule)
  case less
  show ?case
  proof (cases current)
    case Nil
    then show ?thesis by (simp add: walk.simps)
  next
    case (Cons head rest)
    have smaller: "(mset (map (node_rank rank) rest), mset (map (node_rank rank) current))
                     \<in> mult1 less_than"
      by (rule mult1I [where a = "node_rank rank head" and K = "{#}"]) (simp_all add: Cons)
    show ?thesis
    proof (cases head)
      case (NSnapshot s)
      have "(mset (map (node_rank rank) (rest @ expand cf s)),
             mset (map (node_rank rank) current)) \<in> mult1 less_than"
      proof (rule mult1I [where a = "node_rank rank head"
            and K = "mset (map (node_rank rank) (expand cf s))"
            and ?M0.0 = "mset (map (node_rank rank) rest)"])
        show "mset (map (node_rank rank) current) =
              add_mset (node_rank rank head) (mset (map (node_rank rank) rest))"
          by (simp add: Cons)
        show "mset (map (node_rank rank) (rest @ expand cf s)) =
              mset (map (node_rank rank) rest) + mset (map (node_rank rank) (expand cf s))"
          by simp
        fix b assume "b \<in># mset (map (node_rank rank) (expand cf s))"
        then obtain n where "n \<in> set (expand cf s)" "b = node_rank rank n" by auto
        then show "(b, node_rank rank head) \<in> less_than"
          using expand_rank [OF assms] NSnapshot by (simp add: node_rank_def)
      qed
      from less [OF this] show ?thesis
        using Cons NSnapshot by (subst walk.simps) simp
    next
      case (NLocalRepo l)
      from less [OF smaller] show ?thesis
        using Cons NLocalRepo by (subst walk.simps) simp
    next
      case (NRemoteRepo r)
      from less [OF smaller] show ?thesis
        using Cons NRemoteRepo by (subst walk.simps) simp
    qed
  qed
qed

lemma cyclic_expand: "expand cyclic_factory cyclic_snapshot = [NSnapshot cyclic_snapshot]"
  by (simp add: expand_def cyclic_factory_def cyclic_snapshot_def)

lemma cyclic_walk_never:
  assumes "walk cf current rootComponents rootDistributions = Some res"
  shows "\<not> (cf = cyclic_factory \<and> current = [NSnapshot cyclic_snapshot])"
proof (rule walk.raw_induct [where P = "\<lambda>cf current rc rd res.
          \<not> (cf = cyclic_factory \<and> current = [NSnapshot cyclic_snapshot])", OF _ assms])
  fix w cf current rc rd res
  assume ih: "\<And>cf current rc rd res. w cf current rc rd = Some res \<Longrightarrow>
                \<not> (cf = cyclic_factory \<and> current = [NSnapshot cyclic_snapshot])"
    and step: "(case current of [] \<Rightarrow> Some (rc, rd)
      | NSnapshot s # rest \<Rightarrow> w cf (rest @ expand cf s) rc rd
      | NLocalRepo l # rest \<Rightarrow>
          w cf rest
           (if DefaultComponent l \<noteq> [] then rc @ [DefaultComponent l] else rc)
           (if DefaultDistribution l \<noteq> [] then rd @ [DefaultDistribution l] else rd)
      | NRemoteRepo r # rest \<Rightarrow>
          w cf rest (rc @ remote_Components r)
           (if remote_Distribution r \<noteq> [] then rd @ [remote_Distribution r] else rd)) =
     Some res"
  show "\<not> (cf = cyclic_factory \<and> current = [NSnapshot cyclic_snapshot])"
  proof
    assume a: "cf = cyclic_factory \<and> current = [NSnapshot cyclic_snapshot]"
    then have "w cyclic_factory [NSnapshot cyclic_snapshot] rc rd = Some res"
      using step by (simp add: cyclic_expand)
    then show False using ih by blast
  qed
qed

lemma cyclic_walk:
  "walk cyclic_factory [NSnapshot cyclic_snapshot] rootComponents rootDistributions = None"
  using cyclic_walk_never [of cyclic_factory "[NSnapshot cyclic_snapshot]"
      rootComponents rootDistributions]
  by (cases "walk cyclic_factory [NSnapshot cyclic_snapshot] rootComponents rootDistributions")
    auto

lemma cyclic_construction:
  "NewPublishedRepo ''u1'' ''ppa'' [] ''main'' [] (SrcSnapshot cyclic_snapshot) cyclic_factory = None"
  "NewPublishedRepo ''u1'' ''ppa'' ''wheezy'' [] [] (SrcSnapshot cyclic_snapshot) cyclic_factory = None"
  by (simp_all add: NewPublishedRepo_def finishPublishedRepo_def guess_def cyclic_walk
      normalizePrefix_def Clean_def HasPrefix_slash_def HasSuffix_slash_def clean_step_def
      prefixRejected_def invalidPart_def)

lemma accepted_ppa: "\<not> prefixRejected (normalizePrefix ''ppa'')"
  by (simp add: prefixRejected_def invalidPart_def normalizePrefix_def Clean_def
      HasPrefix_slash_def HasSuffix_slash_def clean_step_def)

lemma rejected_pool:
  "normalizePrefix ''pool'' = ''pool''" "prefixRejected (normalizePrefix ''pool'')"
  by (simp_all add: prefixRejected_def invalidPart_def normalizePrefix_def Clean_def
      HasPrefix_slash_def HasSuffix_slash_def clean_step_def)

lemma snapshot_source:
  "SrcSnapshot s = SrcSnapshot s \<and> NSnapshot s = NSnapshot s \<or>
   SrcSnapshot s = SrcLocalRepo \<lparr> local_UUID = [], DefaultDistribution = [],
                                   DefaultComponent = [], local_RefList = [] \<rparr> \<and>
   NSnapshot s = NLocalRepo \<lparr> local_UUID = [], DefaultDistribution = [],
                               DefaultComponent = [], local_RefList = [] \<rparr>"
  by simp

lemma ranked_example_factory: "ranked example_factory (\<lambda>s. 0)"
  by (simp add: ranked_def example_factory_def)

lemma ranked_example_factory2: "ranked example_factory2 (\<lambda>s. 0)"
  by (simp add: ranked_def example_factory2_def)

lemma ranked_example_factory3:
  "ranked example_factory3 (\<lambda>s. if snapshot_SourceKind s = ''snapshot'' then 1 else 0)"
  by (auto simp: ranked_def example_factory3_def example_snapshot_def split: if_splits)

text \<open>
  Claim C4, as amended. With an empty distribution argument, a source that is a snapshot
  or a local repository, a prefix that is not rejected, and snapshots that a rank orders
  (none is reached from itself), the walk returns, and the construction adopts the root
  distribution exactly when the distributions that the walk collected are not empty and
  all equal; in every other case it fails with
  \<open>unable to guess distribution name, please specify explicitly\<close>.
\<close>

theorem C4_guess_distribution:
  assumes "src = SrcSnapshot s \<and> start = NSnapshot s \<or>
           src = SrcLocalRepo l \<and> start = NLocalRepo l"
      and "\<not> prefixRejected (normalizePrefix prefix)"
      and "ranked cf rank"
  shows "\<exists>rootComponents rootDistributions.
           walk cf [start] [] [] = Some (rootComponents, rootDistributions) \<and>
           (rootDistributions \<noteq> [] \<and> (\<forall>d\<in>set rootDistributions. d = hd rootDistributions) \<longrightarrow>
              (\<exists>r. NewPublishedRepo newUUID prefix [] component architectures src cf
                      = Some (Inr r) \<and>
                   Distribution r = hd rootDistributions)) \<and>
           (\<not> (rootDistributions \<noteq> [] \<and> (\<forall>d\<in>set rootDistributions. d = hd rootDistributions)) \<longrightarrow>
              NewPublishedRepo newUUID prefix [] component architectures src cf =
                Some (Inl (Error ''unable to guess distribution name, please specify explicitly'')))"
proof -
  obtain rc rd where w: "walk cf [start] [] [] = Some (rc, rd)"
    using walk_returns [OF assms(3), of "[start]" "[]" "[]"] by auto
  show ?thesis
    using guess_distribution_walked [OF assms(1,2) w, of newUUID component architectures] w
    by blast
qed

theorem C4_guess_distribution_witness:
  "\<not> prefixRejected (normalizePrefix ''ppa'') \<and>
   ranked example_factory (\<lambda>s. 0) \<and>
   walk example_factory [NSnapshot example_snapshot] [] [] = Some ([''main''], [''wheezy'']) \<and>
   (\<exists>r. NewPublishedRepo ''u1'' ''ppa'' [] [] [] (SrcSnapshot example_snapshot) example_factory
           = Some (Inr r) \<and> Distribution r = ''wheezy'') \<and>
   ranked example_factory3 (\<lambda>s. if snapshot_SourceKind s = ''snapshot'' then 1 else 0) \<and>
   walk example_factory3 [NSnapshot merged_snapshot] [] [] =
     Some ([''main'', ''main''], [''wheezy'', ''jessie'']) \<and>
   NewPublishedRepo ''u1'' ''ppa'' [] [] [] (SrcSnapshot merged_snapshot) example_factory3 =
     Some (Inl (Error ''unable to guess distribution name, please specify explicitly''))"
proof -
  have c: "\<exists>r. NewPublishedRepo ''u1'' ''ppa'' [] [] [] (SrcSnapshot example_snapshot)
             example_factory = Some (Inr r) \<and> Distribution r = ''wheezy''"
    using C4_guess_distribution [OF snapshot_source accepted_ppa ranked_example_factory,
        where newUUID = "''u1''" and component = "[]" and architectures = "[]"
        and s = example_snapshot]
    by (simp add: example_walk)
  have d: "NewPublishedRepo ''u1'' ''ppa'' [] [] [] (SrcSnapshot merged_snapshot)
             example_factory3 =
     Some (Inl (Error ''unable to guess distribution name, please specify explicitly''))"
    using C4_guess_distribution [OF snapshot_source accepted_ppa ranked_example_factory3,
        where newUUID = "''u1''" and component = "[]" and architectures = "[]"
        and s = merged_snapshot]
    by (simp add: merged_walk)
  show ?thesis
    by (intro conjI)
      (rule accepted_ppa ranked_example_factory example_walk c ranked_example_factory3
        merged_walk d)+
qed

text \<open>
  Claim C4 as it was stated fails for a rejected prefix: one root distribution is
  collected, and the construction fails with \<open>invalid prefix pool\<close>. On a snapshot that
  is its own source the construction does not return.
\<close>

theorem C4_rejected_prefix_counterexample:
  "walk example_factory [NSnapshot example_snapshot] [] [] = Some ([''main''], [''wheezy'']) \<and>
   NewPublishedRepo ''u1'' ''pool'' [] [] [] (SrcSnapshot example_snapshot) example_factory =
     Some (Inl (Error ''invalid prefix pool'')) \<and>
   NewPublishedRepo ''u1'' ''ppa'' [] ''main'' [] (SrcSnapshot cyclic_snapshot) cyclic_factory
     = None"
proof -
  have "NewPublishedRepo ''u1'' ''pool'' [] [] [] (SrcSnapshot example_snapshot) example_factory =
     Some (Inl (Error ''invalid prefix pool''))"
    by (simp add: New_snapshot finish_rejected [OF rejected_pool(2)] rejected_pool(1))
  then show ?thesis using example_walk cyclic_construction(1) by simp
qed

text \<open>
  Claim C5, as amended. With an empty component argument, a source that is a snapshot or
  a local repository, a prefix that is not rejected, and snapshots that a rank orders,
  the walk returns; the component of the entity is the collected root component when the
  components that the walk collected are not empty and all equal, and \<open>main\<close> in every
  other case; and the construction succeeds unless the distribution is empty and cannot
  be guessed, so that the component never makes it fail.
\<close>

theorem C5_guess_component:
  assumes "src = SrcSnapshot s \<and> start = NSnapshot s \<or>
           src = SrcLocalRepo l \<and> start = NLocalRepo l"
      and "\<not> prefixRejected (normalizePrefix prefix)"
      and "ranked cf rank"
  shows "\<exists>rootComponents rootDistributions.
           walk cf [start] [] [] = Some (rootComponents, rootDistributions) \<and>
           (distribution \<noteq> [] \<or>
              rootDistributions \<noteq> [] \<and> (\<forall>d\<in>set rootDistributions. d = hd rootDistributions) \<longrightarrow>
              (\<exists>r. NewPublishedRepo newUUID prefix distribution [] architectures src cf
                      = Some (Inr r) \<and>
                   Component r =
                     (if rootComponents \<noteq> [] \<and> (\<forall>c\<in>set rootComponents. c = hd rootComponents)
                      then hd rootComponents else ''main''))) \<and>
           (\<not> (distribution \<noteq> [] \<or>
              rootDistributions \<noteq> [] \<and> (\<forall>d\<in>set rootDistributions. d = hd rootDistributions)) \<longrightarrow>
              NewPublishedRepo newUUID prefix distribution [] architectures src cf =
                Some (Inl (Error ''unable to guess distribution name, please specify explicitly'')))"
proof -
  obtain rc rd where w: "walk cf [start] [] [] = Some (rc, rd)"
    using walk_returns [OF assms(3), of "[start]" "[]" "[]"] by auto
  show ?thesis
    using guess_component_walked [OF assms(1,2) w, of distribution newUUID architectures] w
    by blast
qed

theorem C5_guess_component_witness:
  "\<not> prefixRejected (normalizePrefix ''ppa'') \<and>
   ranked example_factory2 (\<lambda>s. 0) \<and>
   walk example_factory2 [NSnapshot example_snapshot] [] [] =
     Some ([''main'', ''contrib''], [''wheezy'']) \<and>
   (\<exists>r. NewPublishedRepo ''u1'' ''ppa'' [] [] [] (SrcSnapshot example_snapshot) example_factory2
           = Some (Inr r) \<and> Component r = ''main'') \<and>
   ranked example_factory (\<lambda>s. 0) \<and>
   (\<exists>r. NewPublishedRepo ''u1'' ''ppa'' ''stable'' [] [] (SrcSnapshot example_snapshot)
           example_factory = Some (Inr r) \<and> Component r = ''main'' \<and> Distribution r = ''stable'')"
proof -
  have c: "\<exists>r. NewPublishedRepo ''u1'' ''ppa'' [] [] [] (SrcSnapshot example_snapshot)
             example_factory2 = Some (Inr r) \<and> Component r = ''main''"
    using C5_guess_component [OF snapshot_source accepted_ppa ranked_example_factory2,
        where newUUID = "''u1''" and distribution = "[]" and architectures = "[]"
        and s = example_snapshot]
    by (simp add: example_walk2)
  have d: "\<exists>r. NewPublishedRepo ''u1'' ''ppa'' ''stable'' [] [] (SrcSnapshot example_snapshot)
           example_factory = Some (Inr r) \<and> Component r = ''main'' \<and> Distribution r = ''stable''"
    using C5_guess_component [OF snapshot_source accepted_ppa ranked_example_factory,
        where newUUID = "''u1''" and distribution = "''stable''" and architectures = "[]"
        and s = example_snapshot]
    by (simp add: example_walk New_snapshot finish_accepted [OF accepted_ppa] guess_def
        split: sum.splits) 
  show ?thesis
    by (intro conjI)
      (rule accepted_ppa ranked_example_factory2 example_walk2 c ranked_example_factory d)+
qed

text \<open>
  Claim C5 as it was stated fails for a rejected prefix: one root component is collected
  and a distribution is given, and the construction fails with \<open>invalid prefix pool\<close>.
  On a snapshot that is its own source the construction does not return.
\<close>

theorem C5_rejected_prefix_counterexample:
  "walk example_factory [NSnapshot example_snapshot] [] [] = Some ([''main''], [''wheezy'']) \<and>
   NewPublishedRepo ''u1'' ''pool'' ''wheezy'' [] [] (SrcSnapshot example_snapshot)
     example_factory = Some (Inl (Error ''invalid prefix pool'')) \<and>
   NewPublishedRepo ''u1'' ''ppa'' ''wheezy'' [] [] (SrcSnapshot cyclic_snapshot) cyclic_factory
     = None"
proof -
  have "NewPublishedRepo ''u1'' ''pool'' ''wheezy'' [] [] (SrcSnapshot example_snapshot)
          example_factory = Some (Inl (Error ''invalid prefix pool''))"
    by (simp add: New_snapshot finish_rejected [OF rejected_pool(2)] rejected_pool(1))
  then show ?thesis using example_walk cyclic_construction(2) by simp
qed

end
